theory Spec2Isabelle
  imports Main "HOL-Library.Word"
begin

unbundle bit_operations_syntax

section \<open>googlesource-cookieauth: the data of \<open>main.go\<close>\<close>

text \<open>
  The fields of Go's \<open>url.URL\<close>. \<open>writeCookie\<close> reads \<open>Host\<close> and \<open>Path\<close> and builds
  two values with \<open>Scheme\<close> and \<open>Host\<close> set; every other field of a composite literal
  is the zero value of its type.
\<close>

record URL =
  Scheme :: string
  Opaque :: string
  User :: "string option"
  Host :: string
  Path :: string
  RawPath :: string
  ForceQuery :: bool
  RawQuery :: string
  Fragment :: string

definition zeroURL :: URL where
  "zeroURL = \<lparr>Scheme = [], Opaque = [], User = None, Host = [], Path = [],
     RawPath = [], ForceQuery = False, RawQuery = [], Fragment = []\<rparr>"

text \<open>\<open>&url.URL{Scheme: "https", Host: "googlesource.com"}\<close>, line 94.\<close>

definition googleSourceURL :: URL where
  "googleSourceURL = zeroURL\<lparr>Scheme := ''https'', Host := ''googlesource.com''\<rparr>"

text \<open>\<open>&url.URL{Scheme: "https", Host: "source.developers.google.com"}\<close>, line 97.\<close>

definition sourceDevelopersURL :: URL where
  "sourceDevelopersURL =
     zeroURL\<lparr>Scheme := ''https'', Host := ''source.developers.google.com''\<rparr>"

subsection \<open>URL normalization (lines 84 to 98)\<close>

text \<open>The two conditions tested in the body of the first loop, lines 86 and 89.\<close>

definition isGoogleSource :: "URL \<Rightarrow> bool" where
  "isGoogleSource u \<longleftrightarrow>
     Host u = ''googlesource.com'' \<and> (Path u = [] \<or> Path u = ''/'')"

definition isSourceDevelopers :: "URL \<Rightarrow> bool" where
  "isSourceDevelopers u \<longleftrightarrow>
     Host u = ''source.developers.google.com'' \<and> (Path u = [] \<or> Path u = ''/'')"

text \<open>
  The loop of lines 85 to 92 over \<open>urls\<close>, threading the two flags
  \<open>hasGoogleSource\<close> and \<open>hasSourceDevelopers\<close>; a flag once set is never cleared.
\<close>

fun scanURLs :: "URL list \<Rightarrow> bool \<times> bool \<Rightarrow> bool \<times> bool" where
  "scanURLs [] flags = flags"
| "scanURLs (u # us) (hasGoogleSource, hasSourceDevelopers) =
     scanURLs us
       (if isGoogleSource u then True else hasGoogleSource,
        if isSourceDevelopers u then True else hasSourceDevelopers)"

text \<open>Lines 84 to 98: both flags start false, then the two conditional appends.\<close>

definition normalizeURLs :: "URL list \<Rightarrow> URL list" where
  "normalizeURLs urls =
     (case scanURLs urls (False, False) of
        (hasGoogleSource, hasSourceDevelopers) \<Rightarrow>
          let urls1 = (if \<not> hasGoogleSource then urls @ [googleSourceURL] else urls);
              urls2 = (if \<not> hasSourceDevelopers then urls1 @ [sourceDevelopersURL] else urls1)
          in urls2)"

text \<open>How often a list holds an entry for a well-known host (exact host, empty or root path).\<close>

definition countGoogleSource :: "URL list \<Rightarrow> nat" where
  "countGoogleSource urls = length (filter isGoogleSource urls)"

definition countSourceDevelopers :: "URL list \<Rightarrow> nat" where
  "countSourceDevelopers urls = length (filter isSourceDevelopers urls)"

section \<open>The world outside the process\<close>

text \<open>
  Everything \<open>writeCookie\<close> does besides computing is a call into the \<open>credentials\<close>
  package, \<open>nscjar\<close>, or the Go standard library. None of that is in \<open>main.go\<close>. What
  such a call answers is a field of the environment \<open>Env\<close>, left arbitrary; what it changes
  is written into the state \<open>World\<close>, which every operation takes and returns.
\<close>

type_synonym FileMode = "32 word"

record File =
  fileMode :: FileMode
  fileData :: string

text \<open>Fields of \<open>http.Cookie\<close>; \<open>writeCookie\<close> reads none of them.\<close>

record Cookie =
  cookieName :: string
  cookieValue :: string
  cookiePath :: string
  cookieDomain :: string
  cookieExpires :: int
  cookieSecure :: bool

text \<open>\<open>credentials.GitBinary\<close>: \<open>writeCookie\<close> assigns its field \<open>Configs\<close> (line 79).\<close>

record GitBinary =
  gitPath :: string
  Configs :: "string list"

type_synonym Token = string

text \<open>
  The errors \<open>writeCookie\<close> returns, one constructor for each \<open>fmt.Errorf\<close>, with the
  text of the error it wraps (and, for a token, the URL it names).
\<close>

datatype error =
    CannotFindGitBinary string      \<comment> \<open>line 77\<close>
  | CannotReadURLs string           \<comment> \<open>line 82\<close>
  | CannotCreateToken URL string    \<comment> \<open>line 104\<close>
  | CannotReadCookieFile string     \<comment> \<open>line 111\<close>
  | CannotGetCurrentUser string     \<comment> \<open>line 116\<close>
  | CannotCreateOutputDir string    \<comment> \<open>line 126\<close>
  | CannotOpenOutputFile string     \<comment> \<open>line 130\<close>

text \<open>What \<open>main\<close> writes through the \<open>log\<close> package.\<close>

datatype LogEntry =
    Printf_CannotWriteCookies error \<comment> \<open>line 57\<close>
  | Printf_WroteCookies             \<comment> \<open>line 59\<close>
  | Fatalf_CannotWriteCookies error \<comment> \<open>line 69\<close>

record World =
  dirs :: "string \<rightharpoonup> FileMode"     \<comment> \<open>the directories, by path, with their permission bits\<close>
  files :: "string \<rightharpoonup> File"        \<comment> \<open>the regular files, by path\<close>
  stdout :: string                  \<comment> \<open>what has been written to standard output\<close>
  tokenRequests :: "URL list"       \<comment> \<open>the URLs \<open>MakeToken\<close> was called for, oldest first\<close>
  logged :: "LogEntry list"         \<comment> \<open>the messages logged, oldest first\<close>

text \<open>
  A Go result \<open>(v, err)\<close> is a sum: \<open>Inl\<close> the text of a non-nil \<open>err\<close>, \<open>Inr v\<close>
  otherwise. \<open>MakeToken\<close> runs an external credential helper, so its answer may change
  from call to call: it also gets the number of requests made before it. The system
  calls fail when the oracles \<open>mkdirErr\<close>, \<open>openErr\<close> and \<open>writeErr\<close> say so
  (permissions, a full disk, a closed pipe): \<open>writeErr k = Some n\<close> makes the \<open>k\<close>-th
  write of a run fail after \<open>n\<close> bytes.
\<close>

record Env =
  configs :: "string list"                                  \<comment> \<open>the global of line 40\<close>
  FindGitBinary :: "string + GitBinary"
  ListURLs :: "GitBinary \<Rightarrow> string + URL list"
  MakeToken :: "nat \<Rightarrow> GitBinary \<Rightarrow> URL \<Rightarrow> string + Token"
  MakeCookies :: "URL \<Rightarrow> Token \<Rightarrow> Cookie list"
  PathConfig :: "GitBinary \<Rightarrow> string \<Rightarrow> string + string"
  userCurrent :: "string + string"                          \<comment> \<open>\<open>HomeDir\<close> of \<open>user.Current()\<close>\<close>
  Args0 :: string                                           \<comment> \<open>\<open>os.Args[0]\<close>\<close>
  timeNowRFC3339 :: string                                  \<comment> \<open>\<open>time.Now().Format(time.RFC3339)\<close>\<close>
  cookieLine :: "Cookie \<Rightarrow> string"                          \<comment> \<open>the line \<open>nscjar\<close> writes for a cookie\<close>
  umask :: FileMode
  mkdirErr :: "string \<Rightarrow> string option"
  openErr :: "string \<Rightarrow> string option"
  writeErr :: "nat \<Rightarrow> nat option"

subsection \<open>\<open>path/filepath\<close> on Unix\<close>

text \<open>\<open>for j > 0 && !os.IsPathSeparator(path[j-1]) { j-- }\<close>: back over one element.\<close>

fun scanElement :: "string \<Rightarrow> nat \<Rightarrow> nat" where
  "scanElement path 0 = 0"
| "scanElement path (Suc j) = (if path ! j \<noteq> CHR ''/'' then scanElement path j else Suc j)"

text \<open>\<open>for i > 0 && os.IsPathSeparator(path[i-1]) { i-- }\<close>: back over trailing separators.\<close>

fun skipSeparators :: "string \<Rightarrow> nat \<Rightarrow> nat" where
  "skipSeparators path 0 = 0"
| "skipSeparators path (Suc i) = (if path ! i = CHR ''/'' then skipSeparators path i else Suc i)"

text \<open>\<open>strings.Split(path, "/")\<close> and \<open>strings.Join(elems, "/")\<close>.\<close>

fun splitSep :: "string \<Rightarrow> string list" where
  "splitSep [] = [[]]"
| "splitSep (c # cs) =
     (if c = CHR ''/'' then [] # splitSep cs
      else (case splitSep cs of [] \<Rightarrow> [[c]] | e # es \<Rightarrow> (c # e) # es))"

fun joinSep :: "string list \<Rightarrow> string" where
  "joinSep [] = []"
| "joinSep [e] = e"
| "joinSep (e # es) = e @ ''/'' @ joinSep es"

text \<open>
  The loop of \<open>filepath.Clean\<close>, element by element: \<open>out\<close> is the output so far and
  \<open>dotdot\<close> the number of leading \<open>..\<close> elements in it, which a later \<open>..\<close> must not
  remove. An empty element and \<open>.\<close> are dropped; \<open>..\<close> removes the last element when
  there is one to remove, is kept when the path is not rooted, and dropped at the root.
\<close>

fun cleanElems :: "bool \<Rightarrow> string list \<Rightarrow> string list \<Rightarrow> nat \<Rightarrow> string list" where
  "cleanElems rooted [] out dotdot = out"
| "cleanElems rooted (e # es) out dotdot =
     (if e = [] \<or> e = ''.'' then cleanElems rooted es out dotdot
      else if e = ''..'' then
        (if length out > dotdot then cleanElems rooted es (butlast out) dotdot
         else if \<not> rooted then cleanElems rooted es (out @ [''..'']) (Suc dotdot)
         else cleanElems rooted es out dotdot)
      else cleanElems rooted es (out @ [e]) dotdot)"

definition Clean :: "string \<Rightarrow> string" where
  "Clean path =
     (if path = [] then ''.''
      else let rooted = (hd path = CHR ''/'');
               out = (if rooted then ''/'' else []) @ joinSep (cleanElems rooted (splitSep path) [] 0)
           in if out = [] then ''.'' else out)"

text \<open>\<open>filepath.Join\<close>: leading empty elements are ignored, the rest joined and cleaned.\<close>

definition Join :: "string list \<Rightarrow> string" where
  "Join elem = (case dropWhile (\<lambda>e. e = []) elem of [] \<Rightarrow> [] | es \<Rightarrow> Clean (joinSep es))"

text \<open>\<open>filepath.Dir\<close>: all but the last element of the path, cleaned.\<close>

definition Dir :: "string \<Rightarrow> string" where
  "Dir path = Clean (take (scanElement path (length path)) path)"

subsection \<open>The \<open>os\<close> package\<close>

definition ENOENT :: string where "ENOENT = ''no such file or directory''"
definition EEXIST :: string where "EEXIST = ''file exists''"
definition ENOTDIR :: string where "ENOTDIR = ''not a directory''"
definition EISDIR :: string where "EISDIR = ''is a directory''"

text \<open>
  \<open>os.Mkdir\<close>: a new directory gets the permission bits \<open>perm\<close> less those of the umask.
\<close>

definition Mkdir :: "Env \<Rightarrow> string \<Rightarrow> FileMode \<Rightarrow> World \<Rightarrow> string option \<times> World" where
  "Mkdir E name perm w =
     (case mkdirErr E name of
        Some err \<Rightarrow> (Some err, w)
      | None \<Rightarrow>
          if name = [] then (Some ENOENT, w)
          else if name \<in> dom (dirs w) \<or> name \<in> dom (files w) then (Some EEXIST, w)
          else (None, w\<lparr>dirs := (dirs w)(name \<mapsto> perm AND NOT (umask E))\<rparr>))"

text \<open>Both scans move backwards, which is why \<open>MkdirAll\<close> below terminates.\<close>

lemma scanElement_le: "scanElement path j \<le> j"
  by (induction j) auto

lemma skipSeparators_le: "skipSeparators path i \<le> i"
  by (induction i) auto

text \<open>
  \<open>os.MkdirAll\<close>: nothing to do when \<open>path\<close> is a directory, an error when it is a file;
  otherwise the parent \<open>path[:j-1]\<close> first (unless \<open>j \<le> 1\<close>), then \<open>Mkdir path\<close>, whose
  error is dropped when the directory turns out to exist.
\<close>

function MkdirAll :: "Env \<Rightarrow> string \<Rightarrow> FileMode \<Rightarrow> World \<Rightarrow> string option \<times> World" where
  "MkdirAll E path perm w =
     (if path \<in> dom (dirs w) then (None, w)
      else if path \<in> dom (files w) then (Some ENOTDIR, w)
      else
        let j = scanElement path (skipSeparators path (length path)) in
        (case (if j > 1 then MkdirAll E (take (j - 1) path) perm w else (None, w)) of
           (Some err, w') \<Rightarrow> (Some err, w')
         | (None, w') \<Rightarrow>
             (case Mkdir E path perm w' of
                (Some err, w'') \<Rightarrow>
                  if path \<in> dom (dirs w'') then (None, w'') else (Some err, w'')
              | (None, w'') \<Rightarrow> (None, w''))))"
  by pat_completeness auto
termination
proof (relation "measure (\<lambda>(E, path, perm, w). length path)")
  show "wf (measure (\<lambda>(E, path, perm, w). length path))" by simp
next
  fix E :: "Env" and path :: string and perm :: FileMode and w :: World and j :: nat
  assume j: "j = scanElement path (skipSeparators path (length path))" and "1 < j"
  have "j \<le> length path"
    unfolding j by (rule order_trans [OF scanElement_le skipSeparators_le])
  with \<open>1 < j\<close> show "((E, take (j - 1) path, perm, w), (E, path, perm, w))
      \<in> measure (\<lambda>(E, path, perm, w). length path)"
    by simp
qed

declare MkdirAll.simps [simp del]

text \<open>The flags of \<open>os.OpenFile\<close> that the program passes.\<close>

datatype OpenFlag = O_WRONLY | O_CREATE | O_TRUNC

text \<open>Where output goes: \<open>os.Stdout\<close>, or the file opened under a path.\<close>

datatype Sink = Stdout | OpenedFile string

text \<open>
  \<open>os.OpenFile\<close>: an existing file is emptied under \<open>O_TRUNC\<close> and keeps its permission
  bits; a missing one is created under \<open>O_CREATE\<close>, empty, with \<open>perm\<close> less the umask.
\<close>

definition OpenFile ::
  "Env \<Rightarrow> string \<Rightarrow> OpenFlag set \<Rightarrow> FileMode \<Rightarrow> World \<Rightarrow> (string + Sink) \<times> World" where
  "OpenFile E name flag perm w =
     (case openErr E name of
        Some err \<Rightarrow> (Inl err, w)
      | None \<Rightarrow>
          if name \<in> dom (dirs w) then (Inl EISDIR, w)
          else (case files w name of
                  Some f \<Rightarrow>
                    (Inr (OpenedFile name),
                     if O_TRUNC \<in> flag then w\<lparr>files := (files w)(name \<mapsto> f\<lparr>fileData := []\<rparr>)\<rparr>
                     else w)
                | None \<Rightarrow>
                    if O_CREATE \<in> flag
                    then (Inr (OpenedFile name),
                          w\<lparr>files := (files w)(name \<mapsto>
                               \<lparr>fileMode = perm AND NOT (umask E), fileData = []\<rparr>)\<rparr>)
                    else (Inl ENOENT, w)))"

text \<open>
  A write to the sink, the \<open>k\<close>-th of the run: the bytes are added at the end (the file
  was opened without \<open>O_APPEND\<close> and is written from offset 0 on, in sequence). When the
  write fails after \<open>n\<close> bytes, only those are added and the error text is returned.
\<close>

definition appendSink :: "Sink \<Rightarrow> string \<Rightarrow> World \<Rightarrow> World" where
  "appendSink sink bytes w =
     (case sink of
        Stdout \<Rightarrow> w\<lparr>stdout := stdout w @ bytes\<rparr>
      | OpenedFile name \<Rightarrow>
          (case files w name of
             None \<Rightarrow> w
           | Some f \<Rightarrow> w\<lparr>files := (files w)(name \<mapsto> f\<lparr>fileData := fileData f @ bytes\<rparr>)\<rparr>))"

definition Write :: "Env \<Rightarrow> nat \<Rightarrow> Sink \<Rightarrow> string \<Rightarrow> World \<Rightarrow> string option \<times> World" where
  "Write E k sink bytes w =
     (case writeErr E k of
        None \<Rightarrow> (None, appendSink sink bytes w)
      | Some n \<Rightarrow> (Some ''write error'', appendSink sink (take n bytes) w))"

section \<open>\<open>writeCookie\<close> (lines 74 to 141)\<close>

text \<open>
  Lines 100 to 107: one token request per URL, in order; the first failure ends the run
  with its error. Each request is recorded in the world before its answer is looked at.
\<close>

fun tokenLoop ::
  "Env \<Rightarrow> GitBinary \<Rightarrow> URL list \<Rightarrow> Cookie list \<Rightarrow> World \<Rightarrow> (error + Cookie list) \<times> World" where
  "tokenLoop E gitBinary [] cookies w = (Inr cookies, w)"
| "tokenLoop E gitBinary (u # us) cookies w =
     (let w' = w\<lparr>tokenRequests := tokenRequests w @ [u]\<rparr> in
      case MakeToken E (length (tokenRequests w)) gitBinary u of
        Inl err \<Rightarrow> (Inl (CannotCreateToken u err), w')
      | Inr token \<Rightarrow> tokenLoop E gitBinary us (cookies @ MakeCookies E u token) w')"

text \<open>Lines 109 to 119: the configured path, or the default under the home directory.\<close>

definition resolveOutputFile :: "Env \<Rightarrow> GitBinary \<Rightarrow> error + string" where
  "resolveOutputFile E gitBinary =
     (case PathConfig E gitBinary ''google.cookieFile'' of
        Inl err \<Rightarrow> Inl (CannotReadCookieFile err)
      | Inr outputFile \<Rightarrow>
          if outputFile = [] then
            (case userCurrent E of
               Inl err \<Rightarrow> Inl (CannotGetCurrentUser err)
             | Inr HomeDir \<Rightarrow>
                 Inr (Join [HomeDir, ''.git-credential-cache'', ''googlesource-cookieauth-cookie'']))
          else Inr outputFile)"

text \<open>
  Lines 121 to 133: standard output for \<open>-\<close>; otherwise the directory (mode 0700, which
  is 448) and the file (\<open>O_CREATE|O_WRONLY|O_TRUNC\<close>, mode 0600, which is 384).
\<close>

definition openOutput :: "Env \<Rightarrow> string \<Rightarrow> World \<Rightarrow> (error + Sink) \<times> World" where
  "openOutput E outputFile w =
     (if outputFile = ''-'' then (Inr Stdout, w)
      else
        (case MkdirAll E (Dir outputFile) 448 w of
           (Some err, w1) \<Rightarrow> (Inl (CannotCreateOutputDir err), w1)
         | (None, w1) \<Rightarrow>
             (case OpenFile E outputFile {O_CREATE, O_WRONLY, O_TRUNC} 384 w1 of
                (Inl err, w2) \<Rightarrow> (Inl (CannotOpenOutputFile err), w2)
              | (Inr f, w2) \<Rightarrow> (Inr f, w2))))"

text \<open>Line 135: the header line, as \<open>fmt.Fprintf\<close> formats it.\<close>

definition headerLine :: "Env \<Rightarrow> string" where
  "headerLine E = ''# Created by '' @ Args0 E @ '' at '' @ timeNowRFC3339 E @ [CHR 0x0A]"

text \<open>
  Lines 137 to 139: \<open>p.Marshal(w, c)\<close> for each cookie, the result of each call dropped.
  \<open>k\<close> counts the writes of the run.
\<close>

fun marshalLoop :: "Env \<Rightarrow> nat \<Rightarrow> Sink \<Rightarrow> Cookie list \<Rightarrow> World \<Rightarrow> World" where
  "marshalLoop E k f [] w = w"
| "marshalLoop E k f (c # cs) w =
     (case Write E k f (cookieLine E c) w of (_, w') \<Rightarrow> marshalLoop E (Suc k) f cs w')"

text \<open>Lines 135 to 140: the header (result dropped), the cookies, and \<open>return nil\<close>.\<close>

definition writeOutput :: "Env \<Rightarrow> Sink \<Rightarrow> Cookie list \<Rightarrow> World \<Rightarrow> error option \<times> World" where
  "writeOutput E f cookies w =
     (case Write E 0 f (headerLine E) w of (_, w1) \<Rightarrow> (None, marshalLoop E 1 f cookies w1))"

text \<open>
  The function: \<open>None\<close> is Go's \<open>nil\<close> error. The deferred \<open>w.Close()\<close> of line 132
  changes nothing the world records.
\<close>

definition writeCookie :: "Env \<Rightarrow> World \<Rightarrow> error option \<times> World" where
  "writeCookie E w =
     (case FindGitBinary E of
        Inl err \<Rightarrow> (Some (CannotFindGitBinary err), w)
      | Inr found \<Rightarrow>
          let gitBinary = found\<lparr>Configs := configs E\<rparr> in
          (case ListURLs E gitBinary of
             Inl err \<Rightarrow> (Some (CannotReadURLs err), w)
           | Inr urls \<Rightarrow>
               (case tokenLoop E gitBinary (normalizeURLs urls) [] w of
                  (Inl err, w1) \<Rightarrow> (Some err, w1)
                | (Inr cookies, w1) \<Rightarrow>
                    (case resolveOutputFile E gitBinary of
                       Inl err \<Rightarrow> (Some err, w1)
                     | Inr outputFile \<Rightarrow>
                         (case openOutput E outputFile w1 of
                            (Inl err, w2) \<Rightarrow> (Some err, w2)
                          | (Inr f, w2) \<Rightarrow> writeOutput E f cookies w2)))))"

section \<open>\<open>main\<close> (lines 49 to 72)\<close>

text \<open>
  How far the process got. In \<open>BlockedForever\<close> the main goroutine waits on a channel
  on which nothing will ever be sent: the process does nothing more (the Go runtime ends
  it with a deadlock error when it notices that no goroutine can run).
\<close>

datatype Outcome =
    Exited nat        \<comment> \<open>\<open>main\<close> returned (code 0) or \<open>os.Exit\<close> was called\<close>
  | BlockedForever    \<comment> \<open>waiting for a value that is never sent\<close>
  | StillLooping      \<comment> \<open>at the top of the \<open>for\<close> loop, about to start a pass\<close>

text \<open>Lines 68 to 70: \<open>log.Fatalf\<close> logs and calls \<open>os.Exit(1)\<close>; else \<open>main\<close> returns.\<close>

definition mainOneShot :: "Env \<Rightarrow> World \<Rightarrow> Outcome \<times> World" where
  "mainOneShot E w =
     (case writeCookie E w of
        (Some err, w') \<Rightarrow> (Exited 1, w'\<lparr>logged := logged w' @ [Fatalf_CannotWriteCookies err]\<rparr>)
      | (None, w') \<Rightarrow> (Exited 0, w'))"

subsection \<open>\<open>time.Timer\<close>\<close>

text \<open>
  The timer of the standard library, as its documentation describes it. Time is a number
  of nanoseconds. A timer is armed with a deadline or not, and its channel \<open>C\<close> has room
  for one value. When the deadline passes, the runtime sends the time on the channel
  without blocking, and the timer is no longer armed: it has expired.
\<close>

definition Minute :: nat where "Minute = 60 * 1000000000"

definition refreshInterval :: nat where "refreshInterval = 45 * Minute"

record Timer =
  deadline :: "nat option"
  C :: "nat option"

definition expire :: "nat \<Rightarrow> Timer \<Rightarrow> Timer" where
  "expire now t =
     (case deadline t of
        None \<Rightarrow> t
      | Some d \<Rightarrow>
          if d \<le> now
          then t\<lparr>deadline := None, C := (case C t of None \<Rightarrow> Some d | Some v \<Rightarrow> Some v)\<rparr>
          else t)"

definition NewTimer :: "nat \<Rightarrow> nat \<Rightarrow> Timer" where
  "NewTimer now d = \<lparr>deadline = Some (now + d), C = None\<rparr>"

text \<open>
  \<open>Stop\<close> answers true when the call stops the timer, false when the timer has already
  expired or been stopped. Up to Go 1.22 it leaves the channel as it is; from Go 1.23
  (\<open>sync\<close>) it also empties the channel, and answers true when it took a value out.
  \<open>Reset\<close> arms the timer again (and from Go 1.23 empties the channel).
\<close>

definition Stop :: "bool \<Rightarrow> nat \<Rightarrow> Timer \<Rightarrow> bool \<times> Timer" where
  "Stop sync now t =
     (let t' = expire now t in
      if sync then (deadline t' \<noteq> None \<or> C t' \<noteq> None, t'\<lparr>deadline := None, C := None\<rparr>)
      else (deadline t' \<noteq> None, t'\<lparr>deadline := None\<rparr>))"

definition Reset :: "bool \<Rightarrow> nat \<Rightarrow> nat \<Rightarrow> Timer \<Rightarrow> Timer" where
  "Reset sync now d t =
     (let t' = expire now t in
      t'\<lparr>deadline := Some (now + d), C := (if sync then None else C t')\<rparr>)"

text \<open>
  \<open><-timer.C\<close>: a value in the channel is taken at once; with the channel empty and the
  timer armed, the receive waits until the deadline; with the channel empty and the
  timer not armed, nothing will ever be sent, and the receive never returns (\<open>None\<close>).
  The result holds the time at which the receive returns.
\<close>

definition receive :: "nat \<Rightarrow> Timer \<Rightarrow> (nat \<times> Timer) option" where
  "receive now t =
     (let t' = expire now t in
      case C t' of
        Some v \<Rightarrow> Some (now, t'\<lparr>C := None\<rparr>)
      | None \<Rightarrow>
          (case deadline t' of
             Some d \<Rightarrow> Some (d, t'\<lparr>deadline := None\<rparr>)
           | None \<Rightarrow> None))"

subsection \<open>Daemon mode (lines 54 to 66)\<close>

record Daemon =
  clock :: nat                   \<comment> \<open>the time now\<close>
  timer :: Timer
  world :: World
  started :: "nat list"          \<comment> \<open>when each call of \<open>writeCookie\<close> began, oldest first\<close>

text \<open>
  One pass through the body of the loop. \<open>E\<close> is the environment this call of
  \<open>writeCookie\<close> meets and \<open>took\<close> the time the call takes.
\<close>

definition daemonIteration :: "bool \<Rightarrow> Env \<Rightarrow> nat \<Rightarrow> Daemon \<Rightarrow> Outcome \<times> Daemon" where
  "daemonIteration sync E took s =
     (case writeCookie E (world s) of
        (err, w) \<Rightarrow>
          let entry = (case err of Some e \<Rightarrow> Printf_CannotWriteCookies e
                                 | None \<Rightarrow> Printf_WroteCookies);
              s1 = s\<lparr>world := w\<lparr>logged := logged w @ [entry]\<rparr>,
                     started := started s @ [clock s],
                     clock := clock s + took\<rparr>
          in
          (case Stop sync (clock s1) (timer s1) of
             (stopped, t1) \<Rightarrow>
               (case (if \<not> stopped then receive (clock s1) t1 else Some (clock s1, t1)) of
                  None \<Rightarrow> (BlockedForever, s1\<lparr>timer := t1\<rparr>)
                | Some (now2, t2) \<Rightarrow>
                    (case receive now2 (Reset sync now2 refreshInterval t2) of
                       None \<Rightarrow> (BlockedForever, s1\<lparr>clock := now2, timer := t2\<rparr>)
                     | Some (now3, t3) \<Rightarrow> (StillLooping, s1\<lparr>clock := now3, timer := t3\<rparr>)))))"

text \<open>
  The \<open>for\<close> loop has no exit, so the model runs a given number of passes: pass \<open>k\<close>
  meets the environment \<open>envs k\<close> and its \<open>writeCookie\<close> takes \<open>took k\<close>.
\<close>

fun daemonLoop ::
  "bool \<Rightarrow> (nat \<Rightarrow> Env) \<Rightarrow> (nat \<Rightarrow> nat) \<Rightarrow> nat \<Rightarrow> nat \<Rightarrow> Daemon \<Rightarrow> Outcome \<times> Daemon" where
  "daemonLoop sync envs took 0 k s = (StillLooping, s)"
| "daemonLoop sync envs took (Suc n) k s =
     (case daemonIteration sync (envs k) (took k) s of
        (StillLooping, s') \<Rightarrow> daemonLoop sync envs took n (Suc k) s'
      | (outcome, s') \<Rightarrow> (outcome, s'))"

text \<open>Lines 54 to 66, for \<open>n\<close> passes, from time \<open>now\<close> in world \<open>w\<close>.\<close>

definition mainDaemon ::
  "bool \<Rightarrow> (nat \<Rightarrow> Env) \<Rightarrow> (nat \<Rightarrow> nat) \<Rightarrow> nat \<Rightarrow> nat \<Rightarrow> World \<Rightarrow> Outcome \<times> Daemon" where
  "mainDaemon sync envs took n now w =
     daemonLoop sync envs took n 0
       \<lparr>clock = now, timer = NewTimer now refreshInterval, world = w, started = []\<rparr>"

section \<open>Notions used in the statements\<close>

text \<open>
  An element that \<open>Clean\<close> keeps as it is, and the absolute path made of a list of
  elements: \<open>absPath [''home'', ''alice''] = ''/home/alice''\<close>.
\<close>

definition plainElem :: "string \<Rightarrow> bool" where
  "plainElem e \<longleftrightarrow> e \<noteq> [] \<and> CHR ''/'' \<notin> set e \<and> e \<noteq> ''.'' \<and> e \<noteq> ''..''"

definition absPath :: "string list \<Rightarrow> string" where
  "absPath elems = concat (map (\<lambda>e. CHR ''/'' # e) elems)"

text \<open>
  From \<open>w\<close> to \<open>w'\<close> directories were only added, each with \<open>perm\<close> less the
  umask: every path is a directory with the same mode as before, or was none and is one
  with that mode now.
\<close>

definition dirsGrow :: "Env \<Rightarrow> FileMode \<Rightarrow> World \<Rightarrow> World \<Rightarrow> bool" where
  "dirsGrow E perm w w' \<longleftrightarrow>
     (\<forall>d. dirs w' d = dirs w d
          \<or> (dirs w d = None \<and> dirs w' d = Some (perm AND NOT (umask E))))"

text \<open>
  The bytes a sink holds, whether a sink can be written to, and what writing to a sink
  leaves alone: everything but the bytes of that sink.
\<close>

definition sinkData :: "Sink \<Rightarrow> World \<Rightarrow> string" where
  "sinkData f w =
     (case f of
        Stdout \<Rightarrow> stdout w
      | OpenedFile name \<Rightarrow> (case files w name of None \<Rightarrow> [] | Some fl \<Rightarrow> fileData fl))"

definition isOpen :: "Sink \<Rightarrow> World \<Rightarrow> bool" where
  "isOpen f w = (case f of Stdout \<Rightarrow> True | OpenedFile name \<Rightarrow> name \<in> dom (files w))"

definition sameButData :: "Sink \<Rightarrow> World \<Rightarrow> World \<Rightarrow> bool" where
  "sameButData f w w' \<longleftrightarrow>
     dirs w' = dirs w \<and> tokenRequests w' = tokenRequests w \<and> logged w' = logged w
     \<and> (\<forall>n. map_option fileMode (files w' n) = map_option fileMode (files w n))
     \<and> (case f of
           Stdout \<Rightarrow> files w' = files w
         | OpenedFile name \<Rightarrow> stdout w' = stdout w \<and> (\<forall>n. n \<noteq> name \<longrightarrow> files w' n = files w n))"

text \<open>
  The bytes that a sequence of writes adds to a sink, the first of them being write
  number \<open>k\<close> of the run: all of a write that succeeds, the first \<open>n\<close> of one that fails
  after \<open>n\<close>.
\<close>

fun writtenBytes :: "Env \<Rightarrow> nat \<Rightarrow> string list \<Rightarrow> string" where
  "writtenBytes E k [] = []"
| "writtenBytes E k (d # ds) =
     (case writeErr E k of None \<Rightarrow> d | Some n \<Rightarrow> take n d) @ writtenBytes E (Suc k) ds"

text \<open>
  What one pass of the daemon loop logs, and the state after its call of \<open>writeCookie\<close>
  and the log line (lines 56 to 60), before the timer is touched.
\<close>

definition logEntry :: "error option \<Rightarrow> LogEntry" where
  "logEntry err = (case err of Some e \<Rightarrow> Printf_CannotWriteCookies e | None \<Rightarrow> Printf_WroteCookies)"

definition afterRun :: "Env \<Rightarrow> nat \<Rightarrow> Daemon \<Rightarrow> Daemon" where
  "afterRun E took s =
     s\<lparr>world := (snd (writeCookie E (world s)))
                  \<lparr>logged := logged (snd (writeCookie E (world s)))
                              @ [logEntry (fst (writeCookie E (world s)))]\<rparr>,
       started := started s @ [clock s],
       clock := clock s + took\<rparr>"

section \<open>Inputs for the examples\<close>

text \<open>
  An empty world, and an environment in which every call succeeds: git lists no URL and
  configures no cookie file, the home directory is \<open>/home/alice\<close>, the umask is 022.
\<close>

definition exampleGit :: GitBinary where
  "exampleGit = \<lparr>gitPath = ''/usr/bin/git'', Configs = []\<rparr>"

definition emptyWorld :: World where
  "emptyWorld = \<lparr>dirs = Map.empty, files = Map.empty, stdout = [], tokenRequests = [], logged = []\<rparr>"

definition exampleEnv :: Env where
  "exampleEnv =
     \<lparr>configs = [],
      FindGitBinary = Inr \<lparr>gitPath = ''/usr/bin/git'', Configs = []\<rparr>,
      ListURLs = (\<lambda>g. Inr []),
      MakeToken = (\<lambda>k g u. Inr ''secret''),
      MakeCookies = (\<lambda>u token.
         [\<lparr>cookieName = ''o'', cookieValue = token, cookiePath = ''/'',
           cookieDomain = Host u, cookieExpires = 0, cookieSecure = True\<rparr>]),
      PathConfig = (\<lambda>g key. Inr []),
      userCurrent = Inr ''/home/alice'',
      Args0 = ''googlesource-cookieauth'',
      timeNowRFC3339 = ''2019-06-01T12:00:00Z'',
      cookieLine = (\<lambda>c. cookieDomain c @ [CHR 0x09] @ cookieValue c @ [CHR 0x0A]),
      umask = 18,
      mkdirErr = (\<lambda>name. None),
      openErr = (\<lambda>name. None),
      writeErr = (\<lambda>k. None)\<rparr>"

definition exampleCom :: URL where
  "exampleCom = zeroURL\<lparr>Scheme := ''https'', Host := ''example.com''\<rparr>"

text \<open>
  Variations: the provider refuses one host, or every host; every write fails at its
  first byte; the cookie file is configured as \<open>-\<close>, or as a path; there is no git
  binary.
\<close>

definition deniedEnv :: Env where
  "deniedEnv = exampleEnv\<lparr>MakeToken := (\<lambda>k g u.
       if Host u = ''source.developers.google.com'' then Inl ''denied'' else Inr ''secret'')\<rparr>"

definition refusingEnv :: Env where
  "refusingEnv = exampleEnv\<lparr>MakeToken := (\<lambda>k g u. Inl ''denied'')\<rparr>"

definition diskFullEnv :: Env where
  "diskFullEnv = exampleEnv\<lparr>writeErr := (\<lambda>k. Some 0)\<rparr>"

definition stdoutEnv :: Env where
  "stdoutEnv = exampleEnv\<lparr>PathConfig := (\<lambda>g key. Inr ''-'')\<rparr>"

definition configuredEnv :: Env where
  "configuredEnv = exampleEnv\<lparr>PathConfig := (\<lambda>g key.
      if key = ''google.cookieFile'' then Inr ''/tmp/cookies'' else Inr [])\<rparr>"

definition noGitEnv :: Env where
  "noGitEnv = exampleEnv\<lparr>FindGitBinary := Inl ''executable file not found in $PATH''\<rparr>"

text \<open>
  Alice's cookie file, and a world in which it exists with mode 0644 (420) in directories
  of mode 0755 (493).
\<close>

definition defaultCookieFile :: string where
  "defaultCookieFile = ''/home/alice/.git-credential-cache/googlesource-cookieauth-cookie''"

definition sharedWorld :: World where
  "sharedWorld = emptyWorld
     \<lparr>dirs := [''/home'' \<mapsto> 493, ''/home/alice'' \<mapsto> 493,
               ''/home/alice/.git-credential-cache'' \<mapsto> 493],
      files := [defaultCookieFile \<mapsto> \<lparr>fileMode = 420, fileData = ''old contents''\<rparr>]\<rparr>"

section \<open>URL normalization\<close>

lemma scanURLs_eq:
  "scanURLs urls (g, s) = (g \<or> (\<exists>u \<in> set urls. isGoogleSource u),
                           s \<or> (\<exists>u \<in> set urls. isSourceDevelopers u))"
  by (induction urls arbitrary: g s) auto

lemma normalizeURLs_eq:
  "normalizeURLs urls =
     urls @ (if \<exists>u \<in> set urls. isGoogleSource u then [] else [googleSourceURL])
          @ (if \<exists>u \<in> set urls. isSourceDevelopers u then [] else [sourceDevelopersURL])"
  by (auto simp: normalizeURLs_def scanURLs_eq Let_def)

lemma normalizeURLs_Nil: "normalizeURLs [] = [googleSourceURL, sourceDevelopersURL]"
  by (simp add: normalizeURLs_def)

lemma isGoogleSource_defaults [simp]:
  "isGoogleSource googleSourceURL" "\<not> isGoogleSource sourceDevelopersURL"
  by (simp_all add: isGoogleSource_def googleSourceURL_def sourceDevelopersURL_def zeroURL_def)

lemma isSourceDevelopers_defaults [simp]:
  "isSourceDevelopers sourceDevelopersURL" "\<not> isSourceDevelopers googleSourceURL"
  by (simp_all add: isSourceDevelopers_def googleSourceURL_def sourceDevelopersURL_def
      zeroURL_def)

lemma defaults_distinct [simp]:
  "googleSourceURL \<noteq> sourceDevelopersURL" "sourceDevelopersURL \<noteq> googleSourceURL"
  by (simp_all add: googleSourceURL_def sourceDevelopersURL_def zeroURL_def)

lemma not_member_default:
  "\<not> (\<exists>u \<in> set urls. isGoogleSource u) \<Longrightarrow> googleSourceURL \<notin> set urls"
  "\<not> (\<exists>u \<in> set urls. isSourceDevelopers u) \<Longrightarrow> sourceDevelopersURL \<notin> set urls"
  using isGoogleSource_defaults(1) isSourceDevelopers_defaults(1) by blast+

lemma Bex_iff_filter_length: "(\<exists>u \<in> set xs. P u) \<longleftrightarrow> 0 < length (filter P xs)"
  by (induction xs) auto

lemma countGoogleSource_normalizeURLs:
  "countGoogleSource (normalizeURLs urls) = max 1 (countGoogleSource urls)"
proof -
  have "(\<exists>u \<in> set urls. isGoogleSource u) \<longleftrightarrow> 1 \<le> countGoogleSource urls"
    by (simp add: countGoogleSource_def Bex_iff_filter_length Suc_le_eq)
  then show ?thesis
    by (auto simp: normalizeURLs_eq countGoogleSource_def max_def)
qed

lemma countSourceDevelopers_normalizeURLs:
  "countSourceDevelopers (normalizeURLs urls) = max 1 (countSourceDevelopers urls)"
proof -
  have "(\<exists>u \<in> set urls. isSourceDevelopers u) \<longleftrightarrow> 1 \<le> countSourceDevelopers urls"
    by (simp add: countSourceDevelopers_def Bex_iff_filter_length Suc_le_eq)
  then show ?thesis
    by (auto simp: normalizeURLs_eq countSourceDevelopers_def max_def)
qed

text \<open>
  Claim C1, as stated: whatever list ListURLs returns, the normalized list holds each of
  the two well-known hosts (empty or root path) exactly once, also when the external list
  itself holds a well-known host more than once. The loop only sets a flag and nothing
  ever removes an entry, so an external list naming \<open>googlesource.com\<close> twice keeps
  both entries: the statement fails there.
\<close>

theorem C1_exactly_once_counterexample:
  "countGoogleSource (normalizeURLs [googleSourceURL, googleSourceURL\<lparr>Path := ''/''\<rparr>]) = 2
   \<and> countSourceDevelopers
        (normalizeURLs [googleSourceURL, googleSourceURL\<lparr>Path := ''/''\<rparr>]) = 1"
  by (simp add: normalizeURLs_eq countGoogleSource_def countSourceDevelopers_def
      isGoogleSource_def isSourceDevelopers_def googleSourceURL_def sourceDevelopersURL_def
      zeroURL_def)

text \<open>
  Claim C1, amended: the normalized list holds each well-known host at least once, and
  exactly as often as the external list does when that is one or more; so exactly once
  whenever the external list holds it at most once.
\<close>

theorem C1_wellknown_counts:
  "countGoogleSource (normalizeURLs urls) = max 1 (countGoogleSource urls)
   \<and> countSourceDevelopers (normalizeURLs urls) = max 1 (countSourceDevelopers urls)"
  by (simp add: countGoogleSource_normalizeURLs countSourceDevelopers_normalizeURLs)

text \<open>
  Claim C10: normalization is append-only and order-preserving. The normalized list is
  the input list, unchanged and in order, followed by a suffix that is one of
  \<open>[]\<close>, \<open>[googlesource]\<close>, \<open>[source.developers]\<close>, \<open>[googlesource, source.developers]\<close>;
  the two default URLs have scheme https, the well-known host name and the empty path
  (and every other field zero).
\<close>

theorem C10_append_only:
  "take (length urls) (normalizeURLs urls) = urls
   \<and> drop (length urls) (normalizeURLs urls) \<in>
        {[], [googleSourceURL], [sourceDevelopersURL], [googleSourceURL, sourceDevelopersURL]}
   \<and> length (drop (length urls) (normalizeURLs urls)) \<le> 2
   \<and> Scheme googleSourceURL = ''https'' \<and> Host googleSourceURL = ''googlesource.com''
   \<and> Path googleSourceURL = []
   \<and> Scheme sourceDevelopersURL = ''https''
   \<and> Host sourceDevelopersURL = ''source.developers.google.com''
   \<and> Path sourceDevelopersURL = []"
  by (simp add: normalizeURLs_eq googleSourceURL_def sourceDevelopersURL_def zeroURL_def)

section \<open>The token loop\<close>

lemma tokenLoop_frame:
  "tokenLoop E g us cs w = (r, w') \<Longrightarrow>
     dirs w' = dirs w \<and> files w' = files w \<and> stdout w' = stdout w \<and> logged w' = logged w"
proof (induction us arbitrary: cs w)
  case Nil
  then show ?case by simp
next
  case (Cons u us)
  show ?case
  proof (cases "MakeToken E (length (tokenRequests w)) g u")
    case (Inl err)
    with Cons.prems show ?thesis by (auto simp: Let_def)
  next
    case (Inr token)
    with Cons.prems Cons.IH [of "cs @ MakeCookies E u token" "w\<lparr>tokenRequests := tokenRequests w @ [u]\<rparr>"]
    show ?thesis by (simp add: Let_def)
  qed
qed

text \<open>The requests of a loop are made for a prefix of its list, each entry at most once.\<close>

lemma tokenLoop_requests:
  "tokenLoop E g us cs w = (r, w') \<Longrightarrow>
     \<exists>n \<le> length us. tokenRequests w' = tokenRequests w @ take n us \<and>
        (case r of Inr _ \<Rightarrow> n = length us | Inl _ \<Rightarrow> 0 < n)"
proof (induction us arbitrary: cs w)
  case Nil
  then show ?case by auto
next
  case (Cons u us)
  show ?case
  proof (cases "MakeToken E (length (tokenRequests w)) g u")
    case (Inl err)
    with Cons.prems have "tokenRequests w' = tokenRequests w @ take 1 (u # us)" "r = Inl (CannotCreateToken u err)"
      by (auto simp: Let_def)
    then show ?thesis by (intro exI [of _ 1]) simp
  next
    case (Inr token)
    with Cons.prems Cons.IH [of "cs @ MakeCookies E u token" "w\<lparr>tokenRequests := tokenRequests w @ [u]\<rparr>"]
    obtain n where n: "n \<le> length us" "tokenRequests w' = (tokenRequests w @ [u]) @ take n us"
      "(case r of Inr _ \<Rightarrow> n = length us | Inl _ \<Rightarrow> 0 < n)"
      by (auto simp: Let_def)
    then show ?thesis by (intro exI [of _ "Suc n"]) (auto split: sum.splits)
  qed
qed

text \<open>When some request of the loop would fail, the loop fails, with an error naming a URL.\<close>

lemma tokenLoop_fails:
  "i < length us \<Longrightarrow> MakeToken E (length (tokenRequests w) + i) g (us ! i) = Inl err \<Longrightarrow>
   \<exists>u err' w'. tokenLoop E g us cs w = (Inl (CannotCreateToken u err'), w') \<and> u \<in> set us"
proof (induction us arbitrary: cs w i)
  case Nil
  then show ?case by simp
next
  case (Cons u us)
  show ?case
  proof (cases "MakeToken E (length (tokenRequests w)) g u")
    case (Inl e)
    then show ?thesis by (simp add: Let_def)
  next
    case (Inr token)
    with Cons.prems obtain j where j: "i = Suc j" by (cases i) auto
    with Cons.prems have "j < length us"
      "MakeToken E (length (tokenRequests (w\<lparr>tokenRequests := tokenRequests w @ [u]\<rparr>)) + j) g (us ! j) = Inl err"
      by auto
    from Cons.IH [OF this, of "cs @ MakeCookies E u token"] Inr
    show ?thesis by (auto simp: Let_def)
  qed
qed

text \<open>
  A loop that succeeds got a token for every entry, and its cookies are those made from
  the entries and their tokens, in the order of the list.
\<close>

lemma tokenLoop_succeeds:
  "tokenLoop E g us cs w = (Inr cookies, w') \<Longrightarrow>
   \<exists>tokens. length tokens = length us \<and>
     (\<forall>i < length us. MakeToken E (length (tokenRequests w) + i) g (us ! i) = Inr (tokens ! i)) \<and>
     cookies = cs @ concat (map2 (MakeCookies E) us tokens)"
proof (induction us arbitrary: cs w)
  case Nil
  then show ?case by simp
next
  case (Cons u us)
  show ?case
  proof (cases "MakeToken E (length (tokenRequests w)) g u")
    case (Inl e)
    with Cons.prems show ?thesis by (simp add: Let_def)
  next
    case (Inr token)
    with Cons.prems Cons.IH [of "cs @ MakeCookies E u token" "w\<lparr>tokenRequests := tokenRequests w @ [u]\<rparr>"]
    obtain tokens where t: "length tokens = length us"
      "\<forall>i < length us. MakeToken E (Suc (length (tokenRequests w)) + i) g (us ! i) = Inr (tokens ! i)"
      "cookies = (cs @ MakeCookies E u token) @ concat (map2 (MakeCookies E) us tokens)"
      by (auto simp: Let_def)
    have "\<forall>i < length (u # us). MakeToken E (length (tokenRequests w) + i) g ((u # us) ! i) = Inr ((token # tokens) ! i)"
    proof (intro allI impI)
      fix i assume "i < length (u # us)"
      then show "MakeToken E (length (tokenRequests w) + i) g ((u # us) ! i) = Inr ((token # tokens) ! i)"
        using t(2) Inr by (cases i) auto
    qed
    with t show ?thesis by (intro exI [of _ "token # tokens"]) simp
  qed
qed

lemma tokenLoop_defaults:
  "tokenRequests (snd (tokenLoop E g [googleSourceURL, sourceDevelopersURL] cs w)) =
     tokenRequests w @
       (case MakeToken E (length (tokenRequests w)) g googleSourceURL of
          Inl err \<Rightarrow> [googleSourceURL]
        | Inr token \<Rightarrow> [googleSourceURL, sourceDevelopersURL])"
  by (simp add: Let_def split: sum.splits)

section \<open>The path functions\<close>

lemma splitSep_no_sep: "CHR ''/'' \<notin> set e \<Longrightarrow> splitSep e = [e]"
  by (induction e) auto

lemma splitSep_elem_sep: "CHR ''/'' \<notin> set e \<Longrightarrow> splitSep (e @ CHR ''/'' # r) = e # splitSep r"
  by (induction e) auto

lemma splitSep_elem_absPath:
  "CHR ''/'' \<notin> set e \<Longrightarrow> \<forall>c \<in> set elems. CHR ''/'' \<notin> set c \<Longrightarrow>
   splitSep (e @ absPath elems) = e # elems"
proof (induction elems arbitrary: e)
  case Nil
  then show ?case by (simp add: absPath_def splitSep_no_sep)
next
  case (Cons c elems)
  from Cons.prems have "splitSep (c @ absPath elems) = c # elems"
    by (intro Cons.IH) auto
  with Cons.prems(1) show ?case
    by (simp add: absPath_def splitSep_elem_sep)
qed

lemma cleanElems_plain:
  "\<forall>c \<in> set elems. plainElem c \<Longrightarrow> cleanElems rooted elems out dotdot = out @ elems"
  by (induction elems arbitrary: out) (auto simp: plainElem_def)

lemma joinSep_absPath: "elems \<noteq> [] \<Longrightarrow> CHR ''/'' # joinSep elems = absPath elems"
  by (induction elems rule: joinSep.induct) (auto simp: absPath_def)

text \<open>
  \<open>Clean\<close> leaves an absolute path of plain elements as it is, so \<open>Join\<close> of such a
  path and two plain elements is the three separated by slashes.
\<close>

lemma Clean_absPath:
  assumes "elems \<noteq> []" "\<forall>c \<in> set elems. plainElem c"
  shows "Clean (absPath elems) = absPath elems"
proof -
  from assms(1) obtain c cs where elems: "elems = c # cs" by (cases elems) auto
  have ne: "absPath elems \<noteq> []" and hd: "hd (absPath elems) = CHR ''/''"
    by (simp_all add: elems absPath_def)
  from assms(2) have nosep: "\<forall>c \<in> set elems. CHR ''/'' \<notin> set c"
    by (simp add: plainElem_def)
  have "splitSep (absPath elems) = [] # elems"
    using splitSep_elem_absPath [of "[]" elems] nosep by simp
  moreover have "cleanElems True ([] # elems) [] 0 = elems"
    using cleanElems_plain [OF assms(2), of True "[]" 0] by simp
  ultimately show ?thesis
    using ne hd joinSep_absPath [OF assms(1)] by (simp add: Clean_def Let_def)
qed

lemma Join_home:
  assumes "elems \<noteq> []" "\<forall>c \<in> set elems. plainElem c" "plainElem a" "plainElem b"
  shows "Join [absPath elems, a, b] = absPath elems @ ''/'' @ a @ ''/'' @ b"
proof -
  have ne: "absPath elems \<noteq> []"
    using assms(1) by (cases elems) (auto simp: absPath_def)
  have "joinSep [absPath elems, a, b] = absPath (elems @ [a, b])"
    by (simp add: absPath_def)
  moreover have "Clean (absPath (elems @ [a, b])) = absPath (elems @ [a, b])"
    using assms by (intro Clean_absPath) auto
  ultimately show ?thesis
    using ne by (simp add: Join_def absPath_def)
qed

lemma Join_default:
  "Join [''/home/alice'', ''.git-credential-cache'', ''googlesource-cookieauth-cookie'']
     = ''/home/alice/.git-credential-cache/googlesource-cookieauth-cookie''"
  by (simp add: Join_def Clean_def)

lemma Dir_default:
  "Dir ''/home/alice/.git-credential-cache/googlesource-cookieauth-cookie''
     = ''/home/alice/.git-credential-cache''"
  by (simp add: Dir_def Clean_def)

section \<open>Directories, files and writes\<close>

lemma mode_within: "(perm AND NOT u) AND NOT perm = (0 :: FileMode)"
  by (simp add: bit_eq_iff bit_and_iff bit_not_iff)

lemma Mkdir_frame:
  "Mkdir E name perm w = (r, w') \<Longrightarrow>
   files w' = files w \<and> stdout w' = stdout w \<and> tokenRequests w' = tokenRequests w
   \<and> logged w' = logged w"
  by (auto simp: Mkdir_def split: option.splits if_splits)

lemma Mkdir_success: "Mkdir E name perm w = (None, w') \<Longrightarrow> name \<in> dom (dirs w')"
  by (auto simp: Mkdir_def split: option.splits if_splits)

lemma dirsGrow_refl: "dirsGrow E perm w w"
  by (simp add: dirsGrow_def)

lemma dirsGrow_trans: "dirsGrow E perm w w1 \<Longrightarrow> dirsGrow E perm w1 w2 \<Longrightarrow> dirsGrow E perm w w2"
  unfolding dirsGrow_def
  by (intro allI, erule_tac x = d in allE, erule_tac x = d in allE) auto

lemma Mkdir_dirsGrow: "Mkdir E name perm w = (r, w') \<Longrightarrow> dirsGrow E perm w w'"
  by (auto simp: Mkdir_def dirsGrow_def split: option.splits if_splits)

text \<open>
  \<open>MkdirAll\<close> touches nothing but directories, only adds directories of the mode asked
  for, and when it succeeds the path is a directory.
\<close>

lemma MkdirAll_props:
  "MkdirAll E path perm w = (r, w') \<Longrightarrow>
   files w' = files w \<and> stdout w' = stdout w \<and> tokenRequests w' = tokenRequests w
   \<and> logged w' = logged w \<and> dirsGrow E perm w w' \<and> (r = None \<longrightarrow> path \<in> dom (dirs w'))"
proof (induction E path perm w arbitrary: r w' rule: MkdirAll.induct)
  case (1 E path perm w)
  define j where "j = scanElement path (skipSeparators path (length path))"
  show ?case
  proof (cases "path \<in> dom (dirs w) \<or> path \<in> dom (files w)")
    case True
    with "1.prems" show ?thesis
      by (auto simp: MkdirAll.simps [of E path] dirsGrow_refl split: if_splits)
  next
    case False
    obtain r1 w1 where parent:
      "(if j > 1 then MkdirAll E (take (j - 1) path) perm w else (None, w)) = (r1, w1)"
      by (cases "if j > 1 then MkdirAll E (take (j - 1) path) perm w else (None, w)") auto
    have p1: "files w1 = files w \<and> stdout w1 = stdout w \<and> tokenRequests w1 = tokenRequests w
        \<and> logged w1 = logged w \<and> dirsGrow E perm w w1"
    proof (cases "j > 1")
      case True
      with parent have "MkdirAll E (take (j - 1) path) perm w = (r1, w1)" by simp
      from "1.IH" [OF _ _ j_def True this] False show ?thesis by auto
    next
      case False
      with parent show ?thesis by (simp add: dirsGrow_refl)
    qed
    show ?thesis
    proof (cases r1)
      case (Some err)
      with "1.prems" False parent have "r = Some err" "w' = w1"
        by (auto simp: MkdirAll.simps [of E path] j_def [symmetric])
      with p1 show ?thesis by simp
    next
      case None
      obtain r2 w2 where mk: "Mkdir E path perm w1 = (r2, w2)"
        by (cases "Mkdir E path perm w1") auto
      from "1.prems" False parent None mk
      have res: "w' = w2" "r = (if r2 \<noteq> None \<and> path \<notin> dom (dirs w2) then r2 else None)"
        by (auto simp: MkdirAll.simps [of E path] j_def [symmetric] split: option.splits if_splits)
      from Mkdir_frame [OF mk] Mkdir_dirsGrow [OF mk] p1
      have "files w2 = files w \<and> stdout w2 = stdout w \<and> tokenRequests w2 = tokenRequests w
        \<and> logged w2 = logged w \<and> dirsGrow E perm w w2"
        by (auto intro: dirsGrow_trans)
      moreover have "r = None \<longrightarrow> path \<in> dom (dirs w2)"
        using res(2) mk Mkdir_success [of E path perm w1 w2] by (cases r2) (auto split: if_splits)
      ultimately show ?thesis by (simp add: res(1))
    qed
  qed
qed

lemma OpenFile_fails: "OpenFile E name flag perm w = (Inl err, w') \<Longrightarrow> w' = w"
  by (auto simp: OpenFile_def split: option.splits if_splits)

lemma OpenFile_opens:
  assumes "OpenFile E name {O_CREATE, O_WRONLY, O_TRUNC} perm w = (Inr f, w')"
  shows "f = OpenedFile name \<and> dirs w' = dirs w \<and> stdout w' = stdout w
     \<and> tokenRequests w' = tokenRequests w \<and> logged w' = logged w
     \<and> (\<forall>n. n \<noteq> name \<longrightarrow> files w' n = files w n)
     \<and> files w' name = Some \<lparr>fileMode = (case files w name of
                                              Some old \<Rightarrow> fileMode old
                                            | None \<Rightarrow> perm AND NOT (umask E)),
                               fileData = []\<rparr>"
  using assms by (auto simp: OpenFile_def split: option.splits if_splits)

lemma sameButData_refl: "sameButData f w w"
  by (simp add: sameButData_def split: Sink.splits)

lemma sameButData_trans: "sameButData f w w1 \<Longrightarrow> sameButData f w1 w2 \<Longrightarrow> sameButData f w w2"
  by (auto simp: sameButData_def split: Sink.splits)

lemma appendSink_same: "sameButData f w (appendSink f bytes w)"
  by (auto simp: sameButData_def appendSink_def split: Sink.splits option.splits)

lemma appendSink_data:
  "isOpen f w \<Longrightarrow> sinkData f (appendSink f bytes w) = sinkData f w @ bytes
     \<and> isOpen f (appendSink f bytes w)"
  by (auto simp: isOpen_def sinkData_def appendSink_def split: Sink.splits option.splits)

lemma Write_same: "Write E k f bytes w = (r, w') \<Longrightarrow> sameButData f w w'"
  by (auto simp: Write_def appendSink_same split: option.splits)

lemma Write_isOpen: "Write E k f bytes w = (r, w') \<Longrightarrow> isOpen f w \<Longrightarrow> isOpen f w'"
  by (auto simp: Write_def appendSink_data split: option.splits)

lemma Write_data:
  "Write E k f bytes w = (r, w') \<Longrightarrow> isOpen f w \<Longrightarrow> writeErr E k = None \<Longrightarrow>
   sinkData f w' = sinkData f w @ bytes"
  by (auto simp: Write_def appendSink_data split: option.splits)

lemma marshalLoop_same: "sameButData f w (marshalLoop E k f cs w)"
proof (induction cs arbitrary: k w)
  case Nil
  show ?case by (simp add: sameButData_refl)
next
  case (Cons c cs)
  obtain r w1 where wr: "Write E k f (cookieLine E c) w = (r, w1)"
    by (cases "Write E k f (cookieLine E c) w") auto
  from Write_same [OF wr] Cons.IH [of w1 "Suc k"] show ?case
    by (simp add: wr sameButData_trans)
qed

lemma marshalLoop_data:
  "isOpen f w \<Longrightarrow> \<forall>i < length cs. writeErr E (k + i) = None \<Longrightarrow>
   sinkData f (marshalLoop E k f cs w) = sinkData f w @ concat (map (cookieLine E) cs)"
proof (induction cs arbitrary: k w)
  case Nil
  show ?case by simp
next
  case (Cons c cs)
  obtain r w1 where wr: "Write E k f (cookieLine E c) w = (r, w1)"
    by (cases "Write E k f (cookieLine E c) w") auto
  from Cons.prems(2) have k: "writeErr E k = None" by force
  have rest: "\<forall>i < length cs. writeErr E (Suc k + i) = None"
  proof (intro allI impI)
    fix i assume "i < length cs"
    with Cons.prems(2) have "writeErr E (k + Suc i) = None" by force
    then show "writeErr E (Suc k + i) = None" by simp
  qed
  from Cons.IH [OF Write_isOpen [OF wr Cons.prems(1)] rest] Write_data [OF wr Cons.prems(1) k]
  show ?case by (simp add: wr)
qed

lemma writeOutput_same: "sameButData f w (snd (writeOutput E f cookies w))"
proof -
  obtain r w1 where wr: "Write E 0 f (headerLine E) w = (r, w1)"
    by (cases "Write E 0 f (headerLine E) w") auto
  from Write_same [OF wr] marshalLoop_same [of f w1 E 1 cookies] show ?thesis
    by (simp add: writeOutput_def wr sameButData_trans)
qed

lemma writeOutput_data:
  assumes "isOpen f w" "\<forall>k \<le> length cookies. writeErr E k = None"
  shows "sinkData f (snd (writeOutput E f cookies w))
           = sinkData f w @ headerLine E @ concat (map (cookieLine E) cookies)"
proof -
  obtain r w1 where wr: "Write E 0 f (headerLine E) w = (r, w1)"
    by (cases "Write E 0 f (headerLine E) w") auto
  from assms(2) have k0: "writeErr E 0 = None" by simp
  have rest: "\<forall>i < length cookies. writeErr E (1 + i) = None"
    using assms(2) by auto
  from marshalLoop_data [OF Write_isOpen [OF wr assms(1)] rest] Write_data [OF wr assms(1) k0]
  show ?thesis by (simp add: writeOutput_def wr)
qed

lemma fst_writeOutput: "fst (writeOutput E f cookies w) = None"
  by (simp add: writeOutput_def split: prod.splits)

lemma Write_bytes:
  "Write E k f bytes w = (r, w') \<Longrightarrow> isOpen f w \<Longrightarrow>
   sinkData f w' = sinkData f w @ (case writeErr E k of None \<Rightarrow> bytes | Some n \<Rightarrow> take n bytes)"
  by (auto simp: Write_def appendSink_data split: option.splits)

lemma marshalLoop_bytes:
  "isOpen f w \<Longrightarrow>
   sinkData f (marshalLoop E k f cs w) = sinkData f w @ writtenBytes E k (map (cookieLine E) cs)"
proof (induction cs arbitrary: k w)
  case Nil
  show ?case by simp
next
  case (Cons c cs)
  obtain r w1 where wr: "Write E k f (cookieLine E c) w = (r, w1)"
    by (cases "Write E k f (cookieLine E c) w") auto
  from Cons.IH [OF Write_isOpen [OF wr Cons.prems], of "Suc k"] Write_bytes [OF wr Cons.prems]
  show ?case by (simp add: wr)
qed

lemma writeOutput_bytes:
  assumes "isOpen f w"
  shows "sinkData f (snd (writeOutput E f cookies w))
           = sinkData f w @ writtenBytes E 0 (headerLine E # map (cookieLine E) cookies)"
proof -
  obtain r w1 where wr: "Write E 0 f (headerLine E) w = (r, w1)"
    by (cases "Write E 0 f (headerLine E) w") auto
  from marshalLoop_bytes [OF Write_isOpen [OF wr assms], of E 1 cookies] Write_bytes [OF wr assms]
  show ?thesis by (simp add: writeOutput_def wr)
qed

lemma writtenBytes_all:
  "\<forall>i < length ds. writeErr E (k + i) = None \<Longrightarrow> writtenBytes E k ds = concat ds"
proof (induction ds arbitrary: k)
  case Nil
  show ?case by simp
next
  case (Cons d ds)
  from Cons.prems have k: "writeErr E k = None" by force
  have "\<forall>i < length ds. writeErr E (Suc k + i) = None"
  proof (intro allI impI)
    fix i assume "i < length ds"
    with Cons.prems have "writeErr E (k + Suc i) = None" by force
    then show "writeErr E (Suc k + i) = None" by simp
  qed
  from Cons.IH [OF this] k show ?case by simp
qed

section \<open>The stages of \<open>writeCookie\<close>\<close>

lemma openOutput_stdout: "openOutput E ''-'' w = (Inr Stdout, w)"
  by (simp add: openOutput_def)

lemma openOutput_file:
  assumes "openOutput E outputFile w = (Inr f, w')" "outputFile \<noteq> ''-''"
  shows "f = OpenedFile outputFile \<and> stdout w' = stdout w
     \<and> tokenRequests w' = tokenRequests w \<and> logged w' = logged w
     \<and> dirsGrow E 448 w w' \<and> Dir outputFile \<in> dom (dirs w')
     \<and> (\<forall>n. n \<noteq> outputFile \<longrightarrow> files w' n = files w n)
     \<and> files w' outputFile = Some \<lparr>fileMode = (case files w outputFile of
                                                   Some old \<Rightarrow> fileMode old
                                                 | None \<Rightarrow> 384 AND NOT (umask E)),
                                     fileData = []\<rparr>"
proof -
  obtain r1 w1 where mk: "MkdirAll E (Dir outputFile) 448 w = (r1, w1)"
    by (cases "MkdirAll E (Dir outputFile) 448 w") auto
  with assms have r1: "r1 = None"
    by (cases r1) (auto simp: openOutput_def)
  with assms mk have op: "OpenFile E outputFile {O_CREATE, O_WRONLY, O_TRUNC} 384 w1 = (Inr f, w')"
    by (auto simp: openOutput_def split: prod.splits sum.splits)
  from OpenFile_opens [OF op] have "dirs w' = dirs w1" by simp
  with MkdirAll_props [OF mk] have "dirsGrow E 448 w w'"
    by (simp add: dirsGrow_def)
  with MkdirAll_props [OF mk] r1 OpenFile_opens [OF op] show ?thesis
    by simp
qed

lemma openOutput_fails:
  assumes "openOutput E outputFile w = (Inl err, w')"
  shows "files w' = files w \<and> stdout w' = stdout w \<and> tokenRequests w' = tokenRequests w
     \<and> logged w' = logged w \<and> dirsGrow E 448 w w'"
proof -
  from assms have ne: "outputFile \<noteq> ''-''"
    by (auto simp: openOutput_def)
  obtain r1 w1 where mk: "MkdirAll E (Dir outputFile) 448 w = (r1, w1)"
    by (cases "MkdirAll E (Dir outputFile) 448 w") auto
  show ?thesis
  proof (cases r1)
    case (Some e)
    with assms ne mk have "w' = w1" by (simp add: openOutput_def)
    with MkdirAll_props [OF mk] show ?thesis by simp
  next
    case None
    with assms ne mk obtain e where "OpenFile E outputFile {O_CREATE, O_WRONLY, O_TRUNC} 384 w1 = (Inl e, w')"
      by (auto simp: openOutput_def split: prod.splits sum.splits)
    from OpenFile_fails [OF this] MkdirAll_props [OF mk] show ?thesis by simp
  qed
qed

lemma writeCookie_tokens:
  assumes "FindGitBinary E = Inr found" "ListURLs E (found\<lparr>Configs := configs E\<rparr>) = Inr urls"
    and "tokenLoop E (found\<lparr>Configs := configs E\<rparr>) (normalizeURLs urls) [] w = (Inl err, w1)"
  shows "writeCookie E w = (Some err, w1)"
  using assms by (simp add: writeCookie_def)

lemma writeCookie_opened:
  assumes "FindGitBinary E = Inr found"
    and "ListURLs E (found\<lparr>Configs := configs E\<rparr>) = Inr urls"
    and "tokenLoop E (found\<lparr>Configs := configs E\<rparr>) (normalizeURLs urls) [] w = (Inr cookies, w1)"
    and "resolveOutputFile E (found\<lparr>Configs := configs E\<rparr>) = Inr outputFile"
    and "openOutput E outputFile w1 = (Inr f, w2)"
  shows "writeCookie E w = writeOutput E f cookies w2"
  using assms by (simp add: writeCookie_def)

lemma writeCookie_stages:
  assumes "FindGitBinary E = Inr found"
    and "ListURLs E (found\<lparr>Configs := configs E\<rparr>) = Inr urls"
    and "tokenLoop E (found\<lparr>Configs := configs E\<rparr>) (normalizeURLs urls) [] w = (Inr cookies, w1)"
    and "resolveOutputFile E (found\<lparr>Configs := configs E\<rparr>) = Inr outputFile"
    and "fst (writeCookie E w) = None"
  shows "\<exists>f w2. openOutput E outputFile w1 = (Inr f, w2)
           \<and> writeCookie E w = writeOutput E f cookies w2"
proof -
  obtain r w2 where op: "openOutput E outputFile w1 = (r, w2)"
    by (cases "openOutput E outputFile w1") auto
  show ?thesis
  proof (cases r)
    case (Inl err)
    with assms op show ?thesis by (simp add: writeCookie_def)
  next
    case (Inr f)
    with op writeCookie_opened [OF assms(1-4), of f w2] show ?thesis by simp
  qed
qed

lemma writeCookie_requests:
  assumes "FindGitBinary E = Inr found"
    and "ListURLs E (found\<lparr>Configs := configs E\<rparr>) = Inr urls"
  shows "tokenRequests (snd (writeCookie E w)) =
     tokenRequests (snd (tokenLoop E (found\<lparr>Configs := configs E\<rparr>) (normalizeURLs urls) [] w))"
proof -
  let ?g = "found\<lparr>Configs := configs E\<rparr>"
  obtain r w1 where loop: "tokenLoop E ?g (normalizeURLs urls) [] w = (r, w1)"
    by (cases "tokenLoop E ?g (normalizeURLs urls) [] w") auto
  show ?thesis
  proof (cases r)
    case (Inl err)
    with assms loop show ?thesis by (simp add: writeCookie_def)
  next
    case cookies: (Inr cookies)
    show ?thesis
    proof (cases "resolveOutputFile E ?g")
      case (Inl err)
      with assms loop cookies show ?thesis by (simp add: writeCookie_def)
    next
      case out: (Inr outputFile)
      obtain ro w2 where op: "openOutput E outputFile w1 = (ro, w2)"
        by (cases "openOutput E outputFile w1") auto
      show ?thesis
      proof (cases ro)
        case (Inl err)
        with assms loop cookies out op openOutput_fails [of E outputFile w1 err w2]
        show ?thesis by (simp add: writeCookie_def)
      next
        case (Inr f)
        have "tokenRequests w2 = tokenRequests w1"
        proof (cases "outputFile = ''-''")
          case True
          with op show ?thesis by (simp add: openOutput_stdout)
        next
          case False
          with op Inr openOutput_file [of E outputFile w1 f w2] show ?thesis by simp
        qed
        moreover have "tokenRequests (snd (writeOutput E f cookies w2)) = tokenRequests w2"
          using writeOutput_same [of f w2 E cookies] by (simp add: sameButData_def)
        ultimately show ?thesis
          using assms loop cookies out op Inr by (simp add: writeCookie_def)
      qed
    qed
  qed
qed

lemma writeCookie_logged: "logged (snd (writeCookie E w)) = logged w"
proof (cases "FindGitBinary E")
  case (Inl err)
  then show ?thesis by (simp add: writeCookie_def)
next
  case found: (Inr found)
  let ?g = "found\<lparr>Configs := configs E\<rparr>"
  show ?thesis
  proof (cases "ListURLs E ?g")
    case (Inl err)
    with found show ?thesis by (simp add: writeCookie_def)
  next
    case urls: (Inr urls)
    obtain r w1 where loop: "tokenLoop E ?g (normalizeURLs urls) [] w = (r, w1)"
      by (cases "tokenLoop E ?g (normalizeURLs urls) [] w") auto
    from tokenLoop_frame [OF loop] have w1: "logged w1 = logged w" by simp
    show ?thesis
    proof (cases r)
      case (Inl err)
      with found urls loop w1 show ?thesis by (simp add: writeCookie_def)
    next
      case cookies: (Inr cookies)
      show ?thesis
      proof (cases "resolveOutputFile E ?g")
        case (Inl err)
        with found urls loop cookies w1 show ?thesis by (simp add: writeCookie_def)
      next
        case out: (Inr outputFile)
        obtain ro w2 where op: "openOutput E outputFile w1 = (ro, w2)"
          by (cases "openOutput E outputFile w1") auto
        show ?thesis
        proof (cases ro)
          case (Inl err)
          with found urls loop cookies out op w1 openOutput_fails [of E outputFile w1 err w2]
          show ?thesis by (simp add: writeCookie_def)
        next
          case (Inr f)
          have "logged w2 = logged w1"
          proof (cases "outputFile = ''-''")
            case True
            with op show ?thesis by (simp add: openOutput_stdout)
          next
            case False
            with op Inr openOutput_file [of E outputFile w1 f w2] show ?thesis by simp
          qed
          moreover have "logged (snd (writeOutput E f cookies w2)) = logged w2"
            using writeOutput_same [of f w2 E cookies] by (simp add: sameButData_def)
          ultimately show ?thesis
            using found urls loop cookies out op Inr w1 by (simp add: writeCookie_def)
        qed
      qed
    qed
  qed
qed

subsection \<open>The example runs\<close>

lemmas run_defs = writeCookie_def exampleEnv_def emptyWorld_def normalizeURLs_Nil Let_def
  resolveOutputFile_def Join_default openOutput_def Dir_default defaultCookieFile_def
  OpenFile_def writeOutput_def Write_def appendSink_def headerLine_def Mkdir_def
  MkdirAll.simps [of _ "''/home/alice/.git-credential-cache''"]
  MkdirAll.simps [of _ "''/home/alice''"] MkdirAll.simps [of _ "''/home''"]

lemma example_run:
  "writeCookie exampleEnv emptyWorld =
     (None,
      \<lparr>dirs = [''/home'' \<mapsto> 448, ''/home/alice'' \<mapsto> 448,
               ''/home/alice/.git-credential-cache'' \<mapsto> 448],
       files = [defaultCookieFile \<mapsto>
                 \<lparr>fileMode = 384, fileData = headerLine exampleEnv
                    @ cookieLine exampleEnv (hd (MakeCookies exampleEnv googleSourceURL ''secret''))
                    @ cookieLine exampleEnv (hd (MakeCookies exampleEnv sourceDevelopersURL ''secret''))\<rparr>],
       stdout = [], tokenRequests = [googleSourceURL, sourceDevelopersURL], logged = []\<rparr>)"
  by (simp add: run_defs)

lemma shared_run:
  "writeCookie exampleEnv sharedWorld =
     (None,
      sharedWorld
        \<lparr>files := [defaultCookieFile \<mapsto>
                 \<lparr>fileMode = 420, fileData = headerLine exampleEnv
                    @ concat (map (cookieLine exampleEnv)
                        (MakeCookies exampleEnv googleSourceURL ''secret''
                         @ MakeCookies exampleEnv sourceDevelopersURL ''secret''))\<rparr>],
          tokenRequests := [googleSourceURL, sourceDevelopersURL]\<rparr>)"
  by (simp add: sharedWorld_def run_defs)

lemma diskFull_run:
  "writeCookie diskFullEnv emptyWorld =
     (None,
      \<lparr>dirs = [''/home'' \<mapsto> 448, ''/home/alice'' \<mapsto> 448,
               ''/home/alice/.git-credential-cache'' \<mapsto> 448],
       files = [defaultCookieFile \<mapsto> \<lparr>fileMode = 384, fileData = []\<rparr>],
       stdout = [], tokenRequests = [googleSourceURL, sourceDevelopersURL], logged = []\<rparr>)"
  by (simp add: diskFullEnv_def run_defs)

section \<open>The claims about \<open>writeCookie\<close>\<close>

text \<open>
  Claim C3: when git is found and lists its URLs, and the token request for any one entry
  of the normalized list fails, \<open>writeCookie\<close> returns an error (that of the first
  request that failed, naming its URL) and leaves every file, every directory and standard
  output as they were: the requests come before the output is resolved or opened.
\<close>

theorem C3_token_failure_aborts:
  assumes "FindGitBinary E = Inr found"
    and "ListURLs E (found\<lparr>Configs := configs E\<rparr>) = Inr urls"
    and "i < length (normalizeURLs urls)"
    and "MakeToken E (length (tokenRequests w) + i) (found\<lparr>Configs := configs E\<rparr>)
           (normalizeURLs urls ! i) = Inl reason"
  shows "\<exists>u reason'. fst (writeCookie E w) = Some (CannotCreateToken u reason')
           \<and> u \<in> set (normalizeURLs urls)
           \<and> files (snd (writeCookie E w)) = files w
           \<and> dirs (snd (writeCookie E w)) = dirs w
           \<and> stdout (snd (writeCookie E w)) = stdout w"
proof -
  from tokenLoop_fails [OF assms(3,4), of "[]"]
  obtain u reason' w1 where loop:
    "tokenLoop E (found\<lparr>Configs := configs E\<rparr>) (normalizeURLs urls) [] w
       = (Inl (CannotCreateToken u reason'), w1)" "u \<in> set (normalizeURLs urls)"
    by blast
  from writeCookie_tokens [OF assms(1,2) loop(1)]
  have "writeCookie E w = (Some (CannotCreateToken u reason'), w1)" .
  with tokenLoop_frame [OF loop(1)] loop(2) show ?thesis by auto
qed

text \<open>
  The provider refuses \<open>source.developers.google.com\<close>, the second entry of the
  normalized list: the run fails after two requests and nothing is written.
\<close>

theorem C3_token_failure_aborts_witness:
  "fst (writeCookie deniedEnv emptyWorld) = Some (CannotCreateToken sourceDevelopersURL ''denied'')
   \<and> files (snd (writeCookie deniedEnv emptyWorld)) = files emptyWorld
   \<and> dirs (snd (writeCookie deniedEnv emptyWorld)) = dirs emptyWorld
   \<and> stdout (snd (writeCookie deniedEnv emptyWorld)) = stdout emptyWorld
   \<and> tokenRequests (snd (writeCookie deniedEnv emptyWorld)) = [googleSourceURL, sourceDevelopersURL]"
proof -
  have run: "writeCookie deniedEnv emptyWorld =
      (Some (CannotCreateToken sourceDevelopersURL ''denied''),
       emptyWorld\<lparr>tokenRequests := [googleSourceURL, sourceDevelopersURL]\<rparr>)"
    by (simp add: writeCookie_def deniedEnv_def exampleEnv_def emptyWorld_def normalizeURLs_def
        Let_def googleSourceURL_def sourceDevelopersURL_def zeroURL_def)
  have "\<exists>u reason'. fst (writeCookie deniedEnv emptyWorld) = Some (CannotCreateToken u reason')
           \<and> u \<in> set (normalizeURLs [])
           \<and> files (snd (writeCookie deniedEnv emptyWorld)) = files emptyWorld
           \<and> dirs (snd (writeCookie deniedEnv emptyWorld)) = dirs emptyWorld
           \<and> stdout (snd (writeCookie deniedEnv emptyWorld)) = stdout emptyWorld"
    by (rule C3_token_failure_aborts [where i = 1 and reason = "''denied''"
          and found = "\<lparr>gitPath = ''/usr/bin/git'', Configs = []\<rparr>"])
       (simp_all add: deniedEnv_def exampleEnv_def emptyWorld_def normalizeURLs_def Let_def
          sourceDevelopersURL_def zeroURL_def)
  with run show ?thesis by simp
qed

text \<open>
  Claim C4, as stated: a list with neither well-known host is normalized to a set with no
  duplicates, and for the empty list exactly two tokens are requested. Nothing removes a
  repeated entry, so the list that names \<open>https://example.com\<close> twice keeps it twice. And
  the loop of lines 101 to 107 returns at the first request that fails, so when the
  provider refuses \<open>googlesource.com\<close> the run has asked for one token only.
\<close>

theorem C4_normalized_set_counterexample:
  "\<not> (\<exists>u \<in> set [exampleCom, exampleCom]. isGoogleSource u)
   \<and> \<not> (\<exists>u \<in> set [exampleCom, exampleCom]. isSourceDevelopers u)
   \<and> normalizeURLs [exampleCom, exampleCom]
       = [exampleCom, exampleCom, googleSourceURL, sourceDevelopersURL]
   \<and> \<not> distinct (normalizeURLs [exampleCom, exampleCom])
   \<and> ListURLs refusingEnv (exampleGit\<lparr>Configs := configs refusingEnv\<rparr>) = Inr []
   \<and> fst (writeCookie refusingEnv emptyWorld)
       = Some (CannotCreateToken googleSourceURL ''denied'')
   \<and> tokenRequests (snd (writeCookie refusingEnv emptyWorld)) = [googleSourceURL]"
proof -
  have "\<not> isGoogleSource exampleCom" "\<not> isSourceDevelopers exampleCom"
    by (simp_all add: exampleCom_def isGoogleSource_def isSourceDevelopers_def zeroURL_def)
  then have "normalizeURLs [exampleCom, exampleCom]
       = [exampleCom, exampleCom, googleSourceURL, sourceDevelopersURL]"
    "\<not> (\<exists>u \<in> set [exampleCom, exampleCom]. isGoogleSource u)"
    "\<not> (\<exists>u \<in> set [exampleCom, exampleCom]. isSourceDevelopers u)"
    by (simp_all add: normalizeURLs_eq)
  moreover have "writeCookie refusingEnv emptyWorld =
      (Some (CannotCreateToken googleSourceURL ''denied''),
       emptyWorld\<lparr>tokenRequests := [googleSourceURL]\<rparr>)"
    by (simp add: refusingEnv_def exampleEnv_def emptyWorld_def writeCookie_def
        normalizeURLs_Nil Let_def)
  moreover have "ListURLs refusingEnv (exampleGit\<lparr>Configs := configs refusingEnv\<rparr>) = Inr []"
    by (simp add: refusingEnv_def exampleEnv_def)
  ultimately show ?thesis by simp
qed

text \<open>
  Claim C4, amended: an external list with neither well-known host is followed by the two
  default URLs, which are new to the list and differ from each other, so that a list
  without repetitions stays one (a repetition in the external list is kept); a well-known
  host the external list names (empty or root path) is not appended, and its entries
  stay as many as they were; for the empty list the normalized list is the two defaults,
  and the run asks for their tokens in that order: for both when the first request is
  granted, for the first only when it is refused.
\<close>

theorem C4_normalized_set:
  "(\<not> (\<exists>u \<in> set urls. isGoogleSource u) \<and> \<not> (\<exists>u \<in> set urls. isSourceDevelopers u) \<longrightarrow>
      normalizeURLs urls = urls @ [googleSourceURL, sourceDevelopersURL]
      \<and> googleSourceURL \<notin> set urls \<and> sourceDevelopersURL \<notin> set urls
      \<and> googleSourceURL \<noteq> sourceDevelopersURL
      \<and> (distinct urls \<longrightarrow> distinct (normalizeURLs urls)))
   \<and> ((\<exists>u \<in> set urls. isGoogleSource u) \<longrightarrow>
        googleSourceURL \<notin> set (drop (length urls) (normalizeURLs urls))
        \<and> countGoogleSource (normalizeURLs urls) = countGoogleSource urls)
   \<and> ((\<exists>u \<in> set urls. isSourceDevelopers u) \<longrightarrow>
        sourceDevelopersURL \<notin> set (drop (length urls) (normalizeURLs urls))
        \<and> countSourceDevelopers (normalizeURLs urls) = countSourceDevelopers urls)
   \<and> normalizeURLs [] = [googleSourceURL, sourceDevelopersURL]
   \<and> (FindGitBinary E = Inr found \<and> ListURLs E (found\<lparr>Configs := configs E\<rparr>) = Inr [] \<longrightarrow>
        tokenRequests (snd (writeCookie E w)) =
          tokenRequests w @
            (case MakeToken E (length (tokenRequests w)) (found\<lparr>Configs := configs E\<rparr>)
                    googleSourceURL of
               Inl err \<Rightarrow> [googleSourceURL]
             | Inr token \<Rightarrow> [googleSourceURL, sourceDevelopersURL]))"
proof (intro conjI impI)
  assume none: "\<not> (\<exists>u \<in> set urls. isGoogleSource u) \<and> \<not> (\<exists>u \<in> set urls. isSourceDevelopers u)"
  then show eq: "normalizeURLs urls = urls @ [googleSourceURL, sourceDevelopersURL]"
    by (simp add: normalizeURLs_eq)
  from none show new: "googleSourceURL \<notin> set urls" "sourceDevelopersURL \<notin> set urls"
    using not_member_default by blast+
  show "googleSourceURL \<noteq> sourceDevelopersURL" by simp
  assume "distinct urls"
  with new show "distinct (normalizeURLs urls)" by (simp add: eq)
next
  assume "\<exists>u \<in> set urls. isGoogleSource u"
  then show "googleSourceURL \<notin> set (drop (length urls) (normalizeURLs urls))"
    by (simp add: normalizeURLs_eq)
next
  assume "\<exists>u \<in> set urls. isGoogleSource u"
  then have "1 \<le> countGoogleSource urls"
    by (simp add: countGoogleSource_def Bex_iff_filter_length Suc_le_eq)
  then show "countGoogleSource (normalizeURLs urls) = countGoogleSource urls"
    by (simp add: countGoogleSource_normalizeURLs)
next
  assume "\<exists>u \<in> set urls. isSourceDevelopers u"
  then show "sourceDevelopersURL \<notin> set (drop (length urls) (normalizeURLs urls))"
    by (simp add: normalizeURLs_eq)
next
  assume "\<exists>u \<in> set urls. isSourceDevelopers u"
  then have "1 \<le> countSourceDevelopers urls"
    by (simp add: countSourceDevelopers_def Bex_iff_filter_length Suc_le_eq)
  then show "countSourceDevelopers (normalizeURLs urls) = countSourceDevelopers urls"
    by (simp add: countSourceDevelopers_normalizeURLs)
next
  show "normalizeURLs [] = [googleSourceURL, sourceDevelopersURL]"
    by (rule normalizeURLs_Nil)
next
  assume "FindGitBinary E = Inr found \<and> ListURLs E (found\<lparr>Configs := configs E\<rparr>) = Inr []"
  then show "tokenRequests (snd (writeCookie E w)) =
          tokenRequests w @
            (case MakeToken E (length (tokenRequests w)) (found\<lparr>Configs := configs E\<rparr>)
                    googleSourceURL of
               Inl err \<Rightarrow> [googleSourceURL]
             | Inr token \<Rightarrow> [googleSourceURL, sourceDevelopersURL])"
    using writeCookie_requests [of E found "[]" w]
    by (simp only: normalizeURLs_Nil tokenLoop_defaults)
qed

text \<open>
  With \<open>https://example.com\<close> configured, both defaults are appended; with
  \<open>https://googlesource.com/\<close> configured, only the other one is; with nothing
  configured, the run asks for two tokens.
\<close>

theorem C4_normalized_set_witness:
  "normalizeURLs [exampleCom] = [exampleCom, googleSourceURL, sourceDevelopersURL]
   \<and> distinct (normalizeURLs [exampleCom])
   \<and> normalizeURLs [googleSourceURL\<lparr>Path := ''/''\<rparr>]
        = [googleSourceURL\<lparr>Path := ''/''\<rparr>, sourceDevelopersURL]
   \<and> countGoogleSource (normalizeURLs [googleSourceURL\<lparr>Path := ''/''\<rparr>]) = 1
   \<and> normalizeURLs [sourceDevelopersURL] = [sourceDevelopersURL, googleSourceURL]
   \<and> countSourceDevelopers (normalizeURLs [sourceDevelopersURL]) = 1
   \<and> tokenRequests (snd (writeCookie exampleEnv emptyWorld)) = [googleSourceURL, sourceDevelopersURL]"
proof -
  have a: "\<not> (\<exists>u \<in> set [exampleCom]. isGoogleSource u) \<and> \<not> (\<exists>u \<in> set [exampleCom]. isSourceDevelopers u)"
    by (simp add: exampleCom_def isGoogleSource_def isSourceDevelopers_def zeroURL_def)
  have b: "\<exists>u \<in> set [googleSourceURL\<lparr>Path := ''/''\<rparr>]. isGoogleSource u"
    by (simp add: isGoogleSource_def googleSourceURL_def zeroURL_def)
  have c: "\<exists>u \<in> set [sourceDevelopersURL]. isSourceDevelopers u"
    by simp
  have d: "FindGitBinary exampleEnv = Inr \<lparr>gitPath = ''/usr/bin/git'', Configs = []\<rparr>
      \<and> ListURLs exampleEnv (\<lparr>gitPath = ''/usr/bin/git'', Configs = []\<rparr>\<lparr>Configs := configs exampleEnv\<rparr>) = Inr []"
    by (simp add: exampleEnv_def)
  note t1 = C4_normalized_set [of "[exampleCom]", THEN conjunct1, rule_format, OF a]
  note t2 = C4_normalized_set [of "[googleSourceURL\<lparr>Path := ''/''\<rparr>]", THEN conjunct2,
      THEN conjunct1, rule_format, OF b]
  note t3 = C4_normalized_set [of "[sourceDevelopersURL]", THEN conjunct2, THEN conjunct2,
      THEN conjunct1, rule_format, OF c]
  note t5 = C4_normalized_set [of _ exampleEnv _ emptyWorld, THEN conjunct2, THEN conjunct2,
      THEN conjunct2, THEN conjunct2, rule_format, OF d]
  have e: "distinct [exampleCom]" by simp
  from t1 have "normalizeURLs [exampleCom] = [exampleCom, googleSourceURL, sourceDevelopersURL]"
    by simp
  moreover from t1 have "distinct (normalizeURLs [exampleCom])"
    using e by blast
  moreover from t2 have "countGoogleSource (normalizeURLs [googleSourceURL\<lparr>Path := ''/''\<rparr>]) = 1"
    by (simp add: countGoogleSource_def isGoogleSource_def googleSourceURL_def zeroURL_def)
  moreover from t3 have "countSourceDevelopers (normalizeURLs [sourceDevelopersURL]) = 1"
    by (simp add: countSourceDevelopers_def)
  moreover have "normalizeURLs [googleSourceURL\<lparr>Path := ''/''\<rparr>]
        = [googleSourceURL\<lparr>Path := ''/''\<rparr>, sourceDevelopersURL]"
    using b by (simp add: normalizeURLs_eq isSourceDevelopers_def googleSourceURL_def zeroURL_def)
  moreover have "normalizeURLs [sourceDevelopersURL] = [sourceDevelopersURL, googleSourceURL]"
    by (simp add: normalizeURLs_eq)
  moreover from t5 have "tokenRequests (snd (writeCookie exampleEnv emptyWorld))
      = [googleSourceURL, sourceDevelopersURL]"
    by (simp add: exampleEnv_def emptyWorld_def)
  ultimately show ?thesis by simp
qed

text \<open>
  Claim C6: the output path is the value of \<open>google.cookieFile\<close> when that is not empty;
  otherwise \<open>filepath.Join\<close> of the home directory, \<open>.git-credential-cache\<close> and
  \<open>googlesource-cookieauth-cookie\<close>, which for a home directory \<open>/e1/.../en\<close> in normal
  form is the home directory followed by \<open>/.git-credential-cache/googlesource-cookieauth-cookie\<close>;
  and when the path is \<open>-\<close>, the run opens no file, changes no file and no directory, and
  (its writes succeeding) adds the header and the cookie lines to standard output.
\<close>

theorem C6_output_destination:
  "(PathConfig E g ''google.cookieFile'' = Inr p \<and> p \<noteq> [] \<longrightarrow> resolveOutputFile E g = Inr p)
   \<and> (PathConfig E g ''google.cookieFile'' = Inr [] \<and> userCurrent E = Inr home \<longrightarrow>
        resolveOutputFile E g =
          Inr (Join [home, ''.git-credential-cache'', ''googlesource-cookieauth-cookie'']))
   \<and> (elems \<noteq> [] \<and> (\<forall>e \<in> set elems. plainElem e) \<longrightarrow>
        Join [absPath elems, ''.git-credential-cache'', ''googlesource-cookieauth-cookie'']
          = absPath elems @ ''/.git-credential-cache/googlesource-cookieauth-cookie'')
   \<and> (FindGitBinary E = Inr found
        \<and> ListURLs E (found\<lparr>Configs := configs E\<rparr>) = Inr urls
        \<and> tokenLoop E (found\<lparr>Configs := configs E\<rparr>) (normalizeURLs urls) [] w = (Inr cookies, w1)
        \<and> resolveOutputFile E (found\<lparr>Configs := configs E\<rparr>) = Inr ''-'' \<longrightarrow>
        openOutput E ''-'' w1 = (Inr Stdout, w1)
        \<and> fst (writeCookie E w) = None
        \<and> files (snd (writeCookie E w)) = files w
        \<and> dirs (snd (writeCookie E w)) = dirs w
        \<and> ((\<forall>k \<le> length cookies. writeErr E k = None) \<longrightarrow>
             stdout (snd (writeCookie E w))
               = stdout w @ headerLine E @ concat (map (cookieLine E) cookies)))"
proof (intro conjI impI)
  assume "PathConfig E g ''google.cookieFile'' = Inr p \<and> p \<noteq> []"
  then show "resolveOutputFile E g = Inr p"
    by (simp add: resolveOutputFile_def)
next
  assume "PathConfig E g ''google.cookieFile'' = Inr [] \<and> userCurrent E = Inr home"
  then show "resolveOutputFile E g =
      Inr (Join [home, ''.git-credential-cache'', ''googlesource-cookieauth-cookie''])"
    by (simp add: resolveOutputFile_def)
next
  assume "elems \<noteq> [] \<and> (\<forall>e \<in> set elems. plainElem e)"
  then show "Join [absPath elems, ''.git-credential-cache'', ''googlesource-cookieauth-cookie'']
          = absPath elems @ ''/.git-credential-cache/googlesource-cookieauth-cookie''"
    using Join_home [of elems "''.git-credential-cache''" "''googlesource-cookieauth-cookie''"]
    by (simp add: plainElem_def)
next
  assume run: "FindGitBinary E = Inr found
        \<and> ListURLs E (found\<lparr>Configs := configs E\<rparr>) = Inr urls
        \<and> tokenLoop E (found\<lparr>Configs := configs E\<rparr>) (normalizeURLs urls) [] w = (Inr cookies, w1)
        \<and> resolveOutputFile E (found\<lparr>Configs := configs E\<rparr>) = Inr ''-''"
  then have eq: "writeCookie E w = writeOutput E Stdout cookies w1"
    by (intro writeCookie_opened [where outputFile = "''-''"]) (auto simp: openOutput_stdout)
  from run have frame: "files w1 = files w" "dirs w1 = dirs w" "stdout w1 = stdout w"
    using tokenLoop_frame by blast+
  show "openOutput E ''-'' w1 = (Inr Stdout, w1)"
    by (rule openOutput_stdout)
  show "fst (writeCookie E w) = None"
    by (simp add: eq fst_writeOutput)
  from writeOutput_same [of Stdout w1 E cookies] frame
  show "files (snd (writeCookie E w)) = files w" "dirs (snd (writeCookie E w)) = dirs w"
    by (simp_all add: eq sameButData_def)
  assume "\<forall>k \<le> length cookies. writeErr E k = None"
  from writeOutput_data [OF _ this, of Stdout w1] frame
  show "stdout (snd (writeCookie E w)) = stdout w @ headerLine E @ concat (map (cookieLine E) cookies)"
    by (simp add: eq isOpen_def sinkData_def)
qed

text \<open>
  A configured path is used as it is; with none configured, Alice's cookie file is
  \<open>/home/alice/.git-credential-cache/googlesource-cookieauth-cookie\<close>; with \<open>-\<close>
  configured, the header and the two cookie lines go to standard output and no file or
  directory appears.
\<close>

theorem C6_output_destination_witness:
  "resolveOutputFile configuredEnv exampleGit = Inr ''/tmp/cookies''
   \<and> resolveOutputFile exampleEnv exampleGit
       = Inr ''/home/alice/.git-credential-cache/googlesource-cookieauth-cookie''
   \<and> fst (writeCookie stdoutEnv emptyWorld) = None
   \<and> files (snd (writeCookie stdoutEnv emptyWorld)) = Map.empty
   \<and> dirs (snd (writeCookie stdoutEnv emptyWorld)) = Map.empty
   \<and> stdout (snd (writeCookie stdoutEnv emptyWorld)) =
        headerLine stdoutEnv
        @ concat (map (cookieLine stdoutEnv)
            (MakeCookies stdoutEnv googleSourceURL ''secret''
             @ MakeCookies stdoutEnv sourceDevelopersURL ''secret''))"
proof -
  let ?g = "\<lparr>gitPath = ''/usr/bin/git'', Configs = []\<rparr>"
  let ?w1 = "emptyWorld\<lparr>tokenRequests := [googleSourceURL, sourceDevelopersURL]\<rparr>"
  let ?cookies = "MakeCookies stdoutEnv googleSourceURL ''secret''
             @ MakeCookies stdoutEnv sourceDevelopersURL ''secret''"
  have a: "PathConfig configuredEnv exampleGit ''google.cookieFile'' = Inr ''/tmp/cookies'' \<and> ''/tmp/cookies'' \<noteq> []"
    by (simp add: configuredEnv_def exampleEnv_def)
  have b: "PathConfig exampleEnv exampleGit ''google.cookieFile'' = Inr [] \<and> userCurrent exampleEnv = Inr (absPath [''home'', ''alice''])"
    by (simp add: exampleEnv_def absPath_def)
  have c: "[''home'', ''alice''] \<noteq> [] \<and> (\<forall>e \<in> set [''home'', ''alice'']. plainElem e)"
    by (simp add: plainElem_def)
  have d: "FindGitBinary stdoutEnv = Inr ?g
        \<and> ListURLs stdoutEnv (?g\<lparr>Configs := configs stdoutEnv\<rparr>) = Inr []
        \<and> tokenLoop stdoutEnv (?g\<lparr>Configs := configs stdoutEnv\<rparr>) (normalizeURLs []) [] emptyWorld
            = (Inr ?cookies, ?w1)
        \<and> resolveOutputFile stdoutEnv (?g\<lparr>Configs := configs stdoutEnv\<rparr>) = Inr ''-''"
    by (simp add: stdoutEnv_def run_defs)
  have e: "\<forall>k \<le> length ?cookies. writeErr stdoutEnv k = None"
    by (simp add: stdoutEnv_def exampleEnv_def)
  note t1 = C6_output_destination [of configuredEnv exampleGit "''/tmp/cookies''", THEN conjunct1,
      rule_format, OF a]
  note t2 = C6_output_destination [of exampleEnv exampleGit _ "absPath [''home'', ''alice'']",
      THEN conjunct2, THEN conjunct1, rule_format, OF b]
  note t3 = C6_output_destination [of _ _ _ _ "[''home'', ''alice'']",
      THEN conjunct2, THEN conjunct2, THEN conjunct1, rule_format, OF c]
  note t4 = C6_output_destination [of stdoutEnv _ _ _ _ ?g "[]" emptyWorld ?cookies ?w1,
      THEN conjunct2, THEN conjunct2, THEN conjunct2, rule_format, OF d]
  from t2 t3 have "resolveOutputFile exampleEnv exampleGit
       = Inr ''/home/alice/.git-credential-cache/googlesource-cookieauth-cookie''"
    by (simp add: absPath_def)
  moreover from t4 e have "stdout (snd (writeCookie stdoutEnv emptyWorld)) =
        stdout emptyWorld @ headerLine stdoutEnv @ concat (map (cookieLine stdoutEnv) ?cookies)"
    by blast
  moreover from t4 have "fst (writeCookie stdoutEnv emptyWorld) = None"
    "files (snd (writeCookie stdoutEnv emptyWorld)) = files emptyWorld"
    "dirs (snd (writeCookie stdoutEnv emptyWorld)) = dirs emptyWorld"
    by blast+
  ultimately show ?thesis
    using t1 by (simp add: emptyWorld_def)
qed

text \<open>
  Claim C7, as stated: on every successful run the output is the header line followed by
  one line per cookie. A run is successful when \<open>writeCookie\<close> returns nil, and it does
  so whatever the writes answered (lines 135 to 140). With a full disk the run below
  returns nil, two cookies were made, and the file it leaves is empty: no header line and
  no cookie line.
\<close>

theorem C7_output_contents_counterexample:
  "fst (writeCookie diskFullEnv emptyWorld) = None
   \<and> files (snd (writeCookie diskFullEnv emptyWorld)) defaultCookieFile
       = Some \<lparr>fileMode = 384, fileData = []\<rparr>
   \<and> fst (tokenLoop diskFullEnv exampleGit (normalizeURLs []) [] emptyWorld)
       = Inr (MakeCookies diskFullEnv googleSourceURL ''secret''
              @ MakeCookies diskFullEnv sourceDevelopersURL ''secret'')
   \<and> length (MakeCookies diskFullEnv googleSourceURL ''secret''
              @ MakeCookies diskFullEnv sourceDevelopersURL ''secret'') = 2
   \<and> headerLine diskFullEnv \<noteq> []"
  by (simp add: diskFull_run)
     (simp add: diskFullEnv_def exampleEnv_def emptyWorld_def normalizeURLs_Nil Let_def
        headerLine_def)

text \<open>
  Claim C7, amended: on every run that returns success, the output is what the writes of
  the header line and of the line of each cookie added, in that order; for standard
  output it follows what was there, for a file it is the whole contents, whatever the
  file held before. When no write fails, that is the header line
  \<open># Created by <argv0> at <timestamp>\<close> followed by the line of each cookie. The cookies
  are those made from the tokens of the normalized URLs, in the order of the URLs.
\<close>

theorem C7_output_contents:
  assumes "FindGitBinary E = Inr found"
    and "ListURLs E (found\<lparr>Configs := configs E\<rparr>) = Inr urls"
    and "tokenLoop E (found\<lparr>Configs := configs E\<rparr>) (normalizeURLs urls) [] w = (Inr cookies, w1)"
    and "resolveOutputFile E (found\<lparr>Configs := configs E\<rparr>) = Inr outputFile"
    and "fst (writeCookie E w) = None"
  shows "(if outputFile = ''-''
          then stdout (snd (writeCookie E w))
                 = stdout w @ writtenBytes E 0 (headerLine E # map (cookieLine E) cookies)
          else \<exists>fl. files (snd (writeCookie E w)) outputFile = Some fl
                 \<and> fileData fl = writtenBytes E 0 (headerLine E # map (cookieLine E) cookies))
     \<and> ((\<forall>k \<le> length cookies. writeErr E k = None) \<longrightarrow>
           writtenBytes E 0 (headerLine E # map (cookieLine E) cookies)
             = headerLine E @ concat (map (cookieLine E) cookies))
     \<and> headerLine E = ''# Created by '' @ Args0 E @ '' at '' @ timeNowRFC3339 E @ [CHR 0x0A]
     \<and> (\<exists>tokens. length tokens = length (normalizeURLs urls)
           \<and> cookies = concat (map2 (MakeCookies E) (normalizeURLs urls) tokens))"
proof -
  let ?bytes = "writtenBytes E 0 (headerLine E # map (cookieLine E) cookies)"
  from writeCookie_stages [OF assms(1-5)] obtain f w2 where
    op: "openOutput E outputFile w1 = (Inr f, w2)" and
    eq: "writeCookie E w = writeOutput E f cookies w2"
    by blast
  from tokenLoop_frame [OF assms(3)] have frame: "stdout w1 = stdout w" by simp
  have out: "if outputFile = ''-''
          then stdout (snd (writeCookie E w)) = stdout w @ ?bytes
          else \<exists>fl. files (snd (writeCookie E w)) outputFile = Some fl \<and> fileData fl = ?bytes"
  proof (cases "outputFile = ''-''")
    case True
    with op have "f = Stdout" "w2 = w1" by (simp_all add: openOutput_stdout)
    with writeOutput_bytes [of Stdout w1 E cookies] frame True show ?thesis
      by (simp add: eq isOpen_def sinkData_def)
  next
    case False
    from openOutput_file [OF op False] have f: "f = OpenedFile outputFile"
      and fresh: "files w2 outputFile = Some \<lparr>fileMode = (case files w1 outputFile of
            Some old \<Rightarrow> fileMode old | None \<Rightarrow> 384 AND NOT (umask E)), fileData = []\<rparr>"
      by simp_all
    from fresh have opened: "isOpen (OpenedFile outputFile) w2" "sinkData (OpenedFile outputFile) w2 = []"
      by (auto simp: isOpen_def sinkData_def)
    let ?w' = "snd (writeOutput E (OpenedFile outputFile) cookies w2)"
    from writeOutput_bytes [OF opened(1), of E cookies] opened(2)
    have data: "sinkData (OpenedFile outputFile) ?w' = ?bytes"
      by simp
    from writeOutput_same [of "OpenedFile outputFile" w2 E cookies] fresh
    have "map_option fileMode (files ?w' outputFile) \<noteq> None"
      by (simp add: sameButData_def)
    then obtain fl where "files ?w' outputFile = Some fl" by auto
    with data False show ?thesis
      by (simp add: eq f sinkData_def)
  qed
  have all: "(\<forall>k \<le> length cookies. writeErr E k = None) \<longrightarrow>
      ?bytes = headerLine E @ concat (map (cookieLine E) cookies)"
  proof
    assume ok: "\<forall>k \<le> length cookies. writeErr E k = None"
    then have "\<forall>i < length (headerLine E # map (cookieLine E) cookies). writeErr E (0 + i) = None"
      by auto
    from writtenBytes_all [OF this] show "?bytes = headerLine E @ concat (map (cookieLine E) cookies)"
      by simp
  qed
  from tokenLoop_succeeds [OF assms(3)]
  have "\<exists>tokens. length tokens = length (normalizeURLs urls)
           \<and> cookies = concat (map2 (MakeCookies E) (normalizeURLs urls) tokens)"
    by auto
  with out all show ?thesis by (simp add: headerLine_def)
qed

text \<open>
  Alice's cookie file holds old contents: after the run it holds the header and the two
  cookie lines and nothing else.
\<close>

theorem C7_output_contents_witness:
  "files sharedWorld defaultCookieFile = Some \<lparr>fileMode = 420, fileData = ''old contents''\<rparr>
   \<and> fst (writeCookie exampleEnv sharedWorld) = None
   \<and> (\<exists>fl. files (snd (writeCookie exampleEnv sharedWorld)) defaultCookieFile = Some fl
        \<and> fileData fl =
            ''# Created by googlesource-cookieauth at 2019-06-01T12:00:00Z'' @ [CHR 0x0A]
            @ ''googlesource.com'' @ [CHR 0x09] @ ''secret'' @ [CHR 0x0A]
            @ ''source.developers.google.com'' @ [CHR 0x09] @ ''secret'' @ [CHR 0x0A])"
proof -
  let ?w1 = "sharedWorld\<lparr>tokenRequests := [googleSourceURL, sourceDevelopersURL]\<rparr>"
  let ?cookies = "MakeCookies exampleEnv googleSourceURL ''secret''
             @ MakeCookies exampleEnv sourceDevelopersURL ''secret''"
  have 1: "FindGitBinary exampleEnv = Inr exampleGit"
    by (simp add: exampleEnv_def exampleGit_def)
  have 2: "ListURLs exampleEnv (exampleGit\<lparr>Configs := configs exampleEnv\<rparr>) = Inr []"
    by (simp add: exampleEnv_def)
  have 3: "tokenLoop exampleEnv (exampleGit\<lparr>Configs := configs exampleEnv\<rparr>) (normalizeURLs []) []
      sharedWorld = (Inr ?cookies, ?w1)"
    by (simp add: sharedWorld_def run_defs)
  have 4: "resolveOutputFile exampleEnv (exampleGit\<lparr>Configs := configs exampleEnv\<rparr>)
      = Inr defaultCookieFile"
    by (simp add: run_defs)
  have 5: "fst (writeCookie exampleEnv sharedWorld) = None"
    by (simp add: shared_run)
  have 6: "\<forall>k \<le> length ?cookies. writeErr exampleEnv k = None"
    by (simp add: exampleEnv_def)
  have ne: "defaultCookieFile \<noteq> ''-''"
    by (simp add: defaultCookieFile_def)
  note t = C7_output_contents [OF 1 2 3 4 5]
  from t [THEN conjunct1] ne
  have "\<exists>fl. files (snd (writeCookie exampleEnv sharedWorld)) defaultCookieFile = Some fl
      \<and> fileData fl = writtenBytes exampleEnv 0 (headerLine exampleEnv # map (cookieLine exampleEnv) ?cookies)"
    by (simp only: if_False)
  moreover from t [THEN conjunct2, THEN conjunct1] 6
  have "writtenBytes exampleEnv 0 (headerLine exampleEnv # map (cookieLine exampleEnv) ?cookies)
      = headerLine exampleEnv @ concat (map (cookieLine exampleEnv) ?cookies)"
    by blast
  moreover have "headerLine exampleEnv @ concat (map (cookieLine exampleEnv) ?cookies) =
      ''# Created by googlesource-cookieauth at 2019-06-01T12:00:00Z'' @ [CHR 0x0A]
            @ ''googlesource.com'' @ [CHR 0x09] @ ''secret'' @ [CHR 0x0A]
            @ ''source.developers.google.com'' @ [CHR 0x09] @ ''secret'' @ [CHR 0x0A]"
    by (simp add: headerLine_def exampleEnv_def googleSourceURL_def sourceDevelopersURL_def
        zeroURL_def)
  ultimately show ?thesis
    using 5 by (simp add: sharedWorld_def)
qed

text \<open>
  Claim C8, as stated: the written file is owner-only read-write and its parent directory
  owner-only full permission. The modes 0600 and 0700 are passed to \<open>os.OpenFile\<close> and
  \<open>os.MkdirAll\<close>, which use them only for what they create, and the program never
  changes the mode of what exists. Alice's cookie file exists with mode 0644 (420) in a
  directory of mode 0755 (493): the run succeeds and rewrites the file, and both keep
  their modes, readable by group and others.
\<close>

theorem C8_permissions_counterexample:
  "resolveOutputFile exampleEnv exampleGit = Inr defaultCookieFile
   \<and> Dir defaultCookieFile = ''/home/alice/.git-credential-cache''
   \<and> fst (writeCookie exampleEnv sharedWorld) = None
   \<and> map_option fileMode (files (snd (writeCookie exampleEnv sharedWorld)) defaultCookieFile)
       = Some 420
   \<and> dirs (snd (writeCookie exampleEnv sharedWorld)) ''/home/alice/.git-credential-cache''
       = Some 493
   \<and> (420 :: FileMode) AND 63 = 36 \<and> (493 :: FileMode) AND 63 = 45"
  by (simp add: shared_run)
     (simp add: sharedWorld_def emptyWorld_def defaultCookieFile_def Dir_default
        resolveOutputFile_def exampleEnv_def Join_default)

text \<open>
  Claim C8, amended: on a successful run to a file path, the parent directory of the file
  exists afterwards; every directory that existed keeps its mode and every directory the
  run created has mode 0700 less the umask; the output file keeps its mode when it
  existed and has mode 0600 less the umask when the run created it. So what the run
  creates is owner-only (no bit outside 0700, respectively 0600), and what it finds it
  leaves as it is.
\<close>

theorem C8_permissions:
  assumes "FindGitBinary E = Inr found"
    and "ListURLs E (found\<lparr>Configs := configs E\<rparr>) = Inr urls"
    and "tokenLoop E (found\<lparr>Configs := configs E\<rparr>) (normalizeURLs urls) [] w = (Inr cookies, w1)"
    and "resolveOutputFile E (found\<lparr>Configs := configs E\<rparr>) = Inr outputFile"
    and "outputFile \<noteq> ''-''"
    and "fst (writeCookie E w) = None"
  shows "dirs (snd (writeCookie E w)) (Dir outputFile) =
           Some (case dirs w (Dir outputFile) of
                   Some old \<Rightarrow> old
                 | None \<Rightarrow> 448 AND NOT (umask E))
     \<and> dirsGrow E 448 w (snd (writeCookie E w))
     \<and> map_option fileMode (files (snd (writeCookie E w)) outputFile) =
           Some (case files w outputFile of
                   Some old \<Rightarrow> fileMode old
                 | None \<Rightarrow> 384 AND NOT (umask E))
     \<and> (448 AND NOT (umask E)) AND NOT 448 = 0
     \<and> (384 AND NOT (umask E)) AND NOT 384 = 0"
proof -
  from writeCookie_stages [OF assms(1-4,6)] obtain f w2 where
    op: "openOutput E outputFile w1 = (Inr f, w2)" and
    eq: "writeCookie E w = writeOutput E f cookies w2"
    by blast
  let ?w' = "snd (writeOutput E f cookies w2)"
  from tokenLoop_frame [OF assms(3)] have w1: "dirs w1 = dirs w" "files w1 = files w"
    by simp_all
  from openOutput_file [OF op assms(5)] have
    grow1: "dirsGrow E 448 w1 w2" and isdir: "Dir outputFile \<in> dom (dirs w2)" and
    fresh: "files w2 outputFile = Some \<lparr>fileMode = (case files w1 outputFile of
            Some old \<Rightarrow> fileMode old | None \<Rightarrow> 384 AND NOT (umask E)), fileData = []\<rparr>"
    by simp_all
  from writeOutput_same [of f w2 E cookies] have
    same: "dirs ?w' = dirs w2"
      "map_option fileMode (files ?w' outputFile) = map_option fileMode (files w2 outputFile)"
    by (simp_all add: sameButData_def)
  from grow1 w1(1) same(1) have grow: "dirsGrow E 448 w ?w'"
    by (simp add: dirsGrow_def)
  from isdir same(1) obtain m where m: "dirs ?w' (Dir outputFile) = Some m"
    by auto
  have "m = (case dirs w (Dir outputFile) of Some old \<Rightarrow> old | None \<Rightarrow> 448 AND NOT (umask E))"
    using grow m unfolding dirsGrow_def
    by (auto dest!: spec [of _ "Dir outputFile"] split: option.splits)
  with m have a: "dirs (snd (writeCookie E w)) (Dir outputFile) =
           Some (case dirs w (Dir outputFile) of
                   Some old \<Rightarrow> old
                 | None \<Rightarrow> 448 AND NOT (umask E))"
    by (simp add: eq)
  from grow have b: "dirsGrow E 448 w (snd (writeCookie E w))"
    by (simp add: eq)
  from same(2) fresh w1(2) have c: "map_option fileMode (files (snd (writeCookie E w)) outputFile) =
           Some (case files w outputFile of
                   Some old \<Rightarrow> fileMode old
                 | None \<Rightarrow> 384 AND NOT (umask E))"
    by (simp add: eq)
  have d: "(448 AND NOT (umask E)) AND NOT 448 = 0" "(384 AND NOT (umask E)) AND NOT 384 = 0"
    by (rule mode_within)+
  from a b c d show ?thesis by blast
qed

text \<open>
  In an empty world the run creates Alice's directories with mode 0700 (448) and her
  cookie file with mode 0600 (384), the umask being 022.
\<close>

theorem C8_permissions_witness:
  "defaultCookieFile \<noteq> ''-''
   \<and> fst (writeCookie exampleEnv emptyWorld) = None
   \<and> dirs (snd (writeCookie exampleEnv emptyWorld)) ''/home/alice/.git-credential-cache''
       = Some 448
   \<and> map_option fileMode (files (snd (writeCookie exampleEnv emptyWorld)) defaultCookieFile)
       = Some 384"
proof -
  let ?w1 = "emptyWorld\<lparr>tokenRequests := [googleSourceURL, sourceDevelopersURL]\<rparr>"
  let ?cookies = "MakeCookies exampleEnv googleSourceURL ''secret''
             @ MakeCookies exampleEnv sourceDevelopersURL ''secret''"
  have 1: "FindGitBinary exampleEnv = Inr exampleGit"
    by (simp add: exampleEnv_def exampleGit_def)
  have 2: "ListURLs exampleEnv (exampleGit\<lparr>Configs := configs exampleEnv\<rparr>) = Inr []"
    by (simp add: exampleEnv_def)
  have 3: "tokenLoop exampleEnv (exampleGit\<lparr>Configs := configs exampleEnv\<rparr>) (normalizeURLs []) []
      emptyWorld = (Inr ?cookies, ?w1)"
    by (simp add: run_defs)
  have 4: "resolveOutputFile exampleEnv (exampleGit\<lparr>Configs := configs exampleEnv\<rparr>)
      = Inr defaultCookieFile"
    by (simp add: run_defs)
  have 5: "defaultCookieFile \<noteq> ''-''"
    by (simp add: defaultCookieFile_def)
  have 6: "fst (writeCookie exampleEnv emptyWorld) = None"
    by (simp add: example_run)
  have "Dir defaultCookieFile = ''/home/alice/.git-credential-cache''"
    by (simp add: defaultCookieFile_def Dir_default)
  moreover have "(448 :: FileMode) AND NOT (umask exampleEnv) = 448"
    "(384 :: FileMode) AND NOT (umask exampleEnv) = 384"
    by (simp_all add: exampleEnv_def)
  ultimately show ?thesis
    using C8_permissions [OF 1 2 3 4 5 6] 5 6 by (simp add: emptyWorld_def)
qed

text \<open>
  Claim C9: once git is found, the URLs are listed, every token is obtained, the output
  path is resolved and the output is opened (standard output, or the file), the run
  returns success whatever the writes answer: no oracle for the write errors appears in
  the hypotheses.
\<close>

theorem C9_write_errors_discarded:
  assumes "FindGitBinary E = Inr found"
    and "ListURLs E (found\<lparr>Configs := configs E\<rparr>) = Inr urls"
    and "tokenLoop E (found\<lparr>Configs := configs E\<rparr>) (normalizeURLs urls) [] w = (Inr cookies, w1)"
    and "resolveOutputFile E (found\<lparr>Configs := configs E\<rparr>) = Inr outputFile"
    and "openOutput E outputFile w1 = (Inr f, w2)"
  shows "fst (writeCookie E w) = None \<and> fst (writeOutput E f cookies w2) = None"
  using writeCookie_opened [OF assms] by (simp add: fst_writeOutput)

text \<open>
  Every write fails at its first byte: the run still returns success, and the file it
  created is empty.
\<close>

theorem C9_write_errors_discarded_witness:
  "fst (Write diskFullEnv 0 (OpenedFile defaultCookieFile) (headerLine diskFullEnv)
          (snd (openOutput diskFullEnv defaultCookieFile emptyWorld))) = Some ''write error''
   \<and> fst (writeCookie diskFullEnv emptyWorld) = None"
proof -
  let ?g = "\<lparr>gitPath = ''/usr/bin/git'', Configs = []\<rparr>"
  let ?w1 = "emptyWorld\<lparr>tokenRequests := [googleSourceURL, sourceDevelopersURL]\<rparr>"
  have 1: "FindGitBinary diskFullEnv = Inr ?g"
    by (simp add: diskFullEnv_def exampleEnv_def)
  have 2: "ListURLs diskFullEnv (?g\<lparr>Configs := configs diskFullEnv\<rparr>) = Inr []"
    by (simp add: diskFullEnv_def exampleEnv_def)
  have 3: "tokenLoop diskFullEnv (?g\<lparr>Configs := configs diskFullEnv\<rparr>) (normalizeURLs []) [] emptyWorld
      = (Inr (MakeCookies exampleEnv googleSourceURL ''secret''
              @ MakeCookies exampleEnv sourceDevelopersURL ''secret''), ?w1)"
    by (simp add: diskFullEnv_def run_defs)
  have 4: "resolveOutputFile diskFullEnv (?g\<lparr>Configs := configs diskFullEnv\<rparr>) = Inr defaultCookieFile"
    by (simp add: diskFullEnv_def run_defs)
  have 5: "openOutput diskFullEnv defaultCookieFile ?w1
      = (Inr (OpenedFile defaultCookieFile), snd (openOutput diskFullEnv defaultCookieFile ?w1))"
    by (simp add: diskFullEnv_def run_defs)
  have "fst (Write diskFullEnv 0 (OpenedFile defaultCookieFile) (headerLine diskFullEnv)
          (snd (openOutput diskFullEnv defaultCookieFile emptyWorld))) = Some ''write error''"
    by (simp add: diskFullEnv_def Write_def)
  with C9_write_errors_discarded [OF 1 2 3 4 5] show ?thesis by simp
qed

section \<open>The claims about \<open>main\<close>\<close>

text \<open>
  One-shot mode: a failed run is logged with \<open>log.Fatalf\<close> and the process exits with
  code 1; a successful run logs nothing and the process exits with code 0.
\<close>

lemma mainOneShot_failure:
  "fst (writeCookie E w) = Some err \<Longrightarrow>
   mainOneShot E w = (Exited 1, (snd (writeCookie E w))\<lparr>logged := logged w @ [Fatalf_CannotWriteCookies err]\<rparr>)"
  using writeCookie_logged [of E w]
  by (cases "writeCookie E w") (simp add: mainOneShot_def)

lemma mainOneShot_success:
  "fst (writeCookie E w) = None \<Longrightarrow> mainOneShot E w = (Exited 0, snd (writeCookie E w))"
  by (cases "writeCookie E w") (simp add: mainOneShot_def)

lemma refreshInterval_pos: "0 < refreshInterval"
  by (simp add: refreshInterval_def Minute_def)

text \<open>
  A pass that starts with the timer armed for one interval ahead ends at the top of the
  loop, one interval after its run ended, with the timer fired and its channel empty. A
  pass that starts with such a timer blocks after its run and its log line.
\<close>

lemma daemonIteration_armed:
  assumes "timer s = \<lparr>deadline = Some (clock s + refreshInterval), C = None\<rparr>"
  shows "daemonIteration sync E took s =
     (StillLooping, (afterRun E took s)
        \<lparr>clock := clock s + took + refreshInterval, timer := \<lparr>deadline = None, C = None\<rparr>\<rparr>)"
  using assms refreshInterval_pos
  by (cases "writeCookie E (world s)")
     (simp add: daemonIteration_def afterRun_def logEntry_def Stop_def Reset_def receive_def
        expire_def Let_def)

lemma daemonIteration_spent:
  assumes "timer s = \<lparr>deadline = None, C = None\<rparr>"
  shows "daemonIteration sync E took s = (BlockedForever, afterRun E took s)"
  using assms
  by (cases "writeCookie E (world s)")
     (simp add: daemonIteration_def afterRun_def logEntry_def Stop_def Reset_def receive_def
        expire_def Let_def)

text \<open>
  In daemon mode a failed run is logged with \<open>log.Printf\<close> and nothing else: the pass
  never ends the process, and what it does to the clock and the timer does not depend on
  whether the run failed.
\<close>

lemma daemonIteration_logged:
  "logged (world (snd (daemonIteration sync E took s))) =
     logged (world s) @ [logEntry (fst (writeCookie E (world s)))]"
  using writeCookie_logged [of E "world s"]
  by (cases "writeCookie E (world s)")
     (auto simp: daemonIteration_def logEntry_def Let_def split: prod.splits option.splits)

lemma daemonIteration_not_Exited: "fst (daemonIteration sync E took s) \<noteq> Exited code"
  by (cases "writeCookie E (world s)")
     (auto simp: daemonIteration_def Let_def split: prod.splits option.splits)

lemma mainDaemon_one_pass:
  "mainDaemon sync envs took 1 now w =
     (StillLooping,
      (afterRun (envs 0) (took 0)
            \<lparr>clock = now, timer = NewTimer now refreshInterval, world = w, started = []\<rparr>)
         \<lparr>clock := now + took 0 + refreshInterval, timer := \<lparr>deadline = None, C = None\<rparr>\<rparr>)"
  using daemonIteration_armed [of "\<lparr>clock = now, timer = NewTimer now refreshInterval, world = w, started = []\<rparr>" sync "envs 0" "took 0"]
  by (simp add: mainDaemon_def NewTimer_def)

lemma mainDaemon_two_passes:
  "mainDaemon sync envs took (Suc (Suc n)) now w =
     (BlockedForever,
      afterRun (envs 1) (took 1)
        ((afterRun (envs 0) (took 0)
            \<lparr>clock = now, timer = NewTimer now refreshInterval, world = w, started = []\<rparr>)
         \<lparr>clock := now + took 0 + refreshInterval, timer := \<lparr>deadline = None, C = None\<rparr>\<rparr>))"
proof -
  let ?s0 = "\<lparr>clock = now, timer = NewTimer now refreshInterval, world = w, started = []\<rparr>"
  let ?s1 = "(afterRun (envs 0) (took 0) ?s0)
         \<lparr>clock := now + took 0 + refreshInterval, timer := \<lparr>deadline = None, C = None\<rparr>\<rparr>"
  have 1: "daemonIteration sync (envs 0) (took 0) ?s0 = (StillLooping, ?s1)"
    using daemonIteration_armed [of ?s0 sync "envs 0" "took 0"] by (simp add: NewTimer_def)
  have 2: "daemonIteration sync (envs (Suc 0)) (took (Suc 0)) ?s1
      = (BlockedForever, afterRun (envs (Suc 0)) (took (Suc 0)) ?s1)"
    by (rule daemonIteration_spent) simp
  show ?thesis
    by (simp add: mainDaemon_def 1 2)
qed

text \<open>
  Claim C2 says that in daemon mode the timer is drained and reset correctly and the loop
  repeats for ever, pass \<open>n + 1\<close> following pass \<open>n\<close> after the interval. On the code, for
  every environment, every duration of the runs and both behaviours of \<open>Stop\<close>: the
  first pass ends after its wait, the second pass runs \<open>writeCookie\<close>, logs, and then
  blocks for ever in \<open><-timer.C\<close> of line 62, because the timer has fired, its value was
  taken at line 65 of the first pass, and \<open>Stop\<close> answers false. However many passes
  are allowed, \<open>writeCookie\<close> starts exactly twice: at the start and one interval after
  the first run ended.
\<close>

theorem C2_daemon_blocks_in_second_pass:
  "fst (mainDaemon sync envs took (Suc (Suc n)) now w) = BlockedForever
   \<and> started (snd (mainDaemon sync envs took (Suc (Suc n)) now w))
       = [now, now + took 0 + refreshInterval]
   \<and> logged (world (snd (mainDaemon sync envs took (Suc (Suc n)) now w)))
       = logged w @ [logEntry (fst (writeCookie (envs 0) w)),
                     logEntry (fst (writeCookie (envs 1)
                        ((snd (writeCookie (envs 0) w))
                           \<lparr>logged := logged w @ [logEntry (fst (writeCookie (envs 0) w))]\<rparr>)))]
   \<and> timer (snd (mainDaemon sync envs took (Suc (Suc n)) now w))
       = \<lparr>deadline = None, C = None\<rparr>"
  by (simp add: mainDaemon_two_passes afterRun_def writeCookie_logged)

text \<open>
  Claim C5 says that in one-shot mode a failed run ends the process with a fatal message
  and a non-zero exit code, and that in daemon mode the failure is only logged, the
  process goes on and the schedule continues to the next pass. With no git binary every
  run fails. One-shot mode logs the fatal message and exits with code 1. Daemon mode logs
  the first failure and, one interval later, the second; after the second it blocks for
  ever in \<open><-timer.C\<close> of line 62, and there is no third pass however long one waits.
\<close>

theorem C5_failure_in_second_pass_blocks:
  "mainOneShot noGitEnv emptyWorld =
     (Exited 1, emptyWorld\<lparr>logged := [Fatalf_CannotWriteCookies
        (CannotFindGitBinary ''executable file not found in $PATH'')]\<rparr>)
   \<and> mainDaemon False (\<lambda>k. noGitEnv) (\<lambda>k. 0) 1 0 emptyWorld =
     (StillLooping,
      \<lparr>clock = refreshInterval, timer = \<lparr>deadline = None, C = None\<rparr>,
       world = emptyWorld\<lparr>logged := [Printf_CannotWriteCookies
          (CannotFindGitBinary ''executable file not found in $PATH'')]\<rparr>,
       started = [0]\<rparr>)
   \<and> mainDaemon False (\<lambda>k. noGitEnv) (\<lambda>k. 0) 10 0 emptyWorld =
     (BlockedForever,
      \<lparr>clock = refreshInterval, timer = \<lparr>deadline = None, C = None\<rparr>,
       world = emptyWorld\<lparr>logged :=
         [Printf_CannotWriteCookies (CannotFindGitBinary ''executable file not found in $PATH''),
          Printf_CannotWriteCookies (CannotFindGitBinary ''executable file not found in $PATH'')]\<rparr>,
       started = [0, refreshInterval]\<rparr>)"
proof -
  have run: "writeCookie noGitEnv w =
      (Some (CannotFindGitBinary ''executable file not found in $PATH''), w)" for w
    by (simp add: writeCookie_def noGitEnv_def exampleEnv_def)
  have "(10 :: nat) = Suc (Suc 8)" by simp
  then show ?thesis
    by (simp only: mainDaemon_two_passes mainDaemon_one_pass)
       (simp add: mainOneShot_def afterRun_def logEntry_def run emptyWorld_def)
qed

end
